theory Spec2Isabelle
  imports Complex_Main
begin

section \<open>JavaScript values\<close>

text \<open>
  The weather router, the normalizer in \<^verbatim>\<open>weatherService.js\<close> and the zod schema in
  \<^verbatim>\<open>validation.js\<close> work on plain JavaScript values: the decoded request body, the
  provider's decoded response, the candidate record. A number is an IEEE double; the
  model keeps the three non-finite doubles apart and takes a finite one as a rational.
  A \<^verbatim>\<open>Date\<close> holds its time value in milliseconds, or nothing when it is an
  \<^verbatim>\<open>Invalid Date\<close>. An object is the list of its own properties in insertion order.
\<close>

datatype jsnum = NaN | PosInf | NegInf | Fin rat

datatype jsval =
    Undefined
  | Null
  | JBool bool
  | JNum jsnum
  | JStr string
  | JDate "int option"
  | JArr "jsval list"
  | JObj "(string \<times> jsval) list"

fun nullish :: "jsval \<Rightarrow> bool" where
  "nullish Undefined = True"
| "nullish Null = True"
| "nullish _ = False"

text \<open>\<^verbatim>\<open>if (v)\<close>, \<^verbatim>\<open>!v\<close> and \<^verbatim>\<open>a || b\<close> test truthiness.\<close>

fun truthy :: "jsval \<Rightarrow> bool" where
  "truthy Undefined = False"
| "truthy Null = False"
| "truthy (JBool b) = b"
| "truthy (JNum NaN) = False"
| "truthy (JNum (Fin r)) = (r \<noteq> 0)"
| "truthy (JNum _) = True"
| "truthy (JStr s) = (s \<noteq> [])"
| "truthy _ = True"

text \<open>
  A property key that is a canonical array index (\<^verbatim>\<open>"0"\<close>, \<^verbatim>\<open>"17"\<close>, no sign, no
  leading zero) reads an element of an array or a character of a string.
\<close>

definition is_digit :: "char \<Rightarrow> bool" where
  "is_digit c = ((48::nat) \<le> of_char c \<and> (of_char c :: nat) \<le> 57)"

definition digit_val :: "char \<Rightarrow> nat" where
  "digit_val c = of_char c - 48"

definition index_of_key :: "string \<Rightarrow> nat option" where
  "index_of_key k =
     (if k = [] \<or> \<not> list_all is_digit k \<or> (1 < length k \<and> hd k = CHR ''0'') then None
      else Some (foldl (\<lambda>a c. 10 * a + digit_val c) 0 k))"

text \<open>
  \<open>member v k\<close> is the read \<^verbatim>\<open>v[k]\<close> of an own data property of a value that is
  neither \<^verbatim>\<open>undefined\<close> nor \<^verbatim>\<open>null\<close>; a missing property reads \<^verbatim>\<open>undefined\<close>.
  Inherited methods are not data and are not modelled: none of the keys the
  program reads names one.
\<close>

fun member :: "jsval \<Rightarrow> string \<Rightarrow> jsval" where
  "member (JObj kvs) k = (case map_of kvs k of Some v \<Rightarrow> v | None \<Rightarrow> Undefined)"
| "member (JArr xs) k =
     (case index_of_key k of
        Some i \<Rightarrow> if i < length xs then xs ! i else Undefined
      | None \<Rightarrow> if k = ''length'' then JNum (Fin (of_nat (length xs))) else Undefined)"
| "member (JStr s) k =
     (case index_of_key k of
        Some i \<Rightarrow> if i < length s then JStr [s ! i] else Undefined
      | None \<Rightarrow> if k = ''length'' then JNum (Fin (of_nat (length s))) else Undefined)"
| "member _ k = Undefined"

section \<open>Errors and the default error handler\<close>

text \<open>
  Every handler body is one \<^verbatim>\<open>try { ... } catch (err) { next(err) }\<close>, so each
  exception is a value handed to Express. The application installs no error
  middleware: Express answers with the error's \<^verbatim>\<open>status\<close> when that is a 4xx or 5xx
  code, and with 500 otherwise. Only the errors of \<^verbatim>\<open>createError\<close> and of the HTTP
  client can carry a status.
\<close>

datatype issue_code = Invalid_type | Too_small | Invalid_date

record issue =
  path :: "string list"
  code :: issue_code

datatype error =
    TypeError
  | HttpError nat string
  | ZodError "issue list"
  | CastError string
  | ValidationError "string list"
  | ProviderError "nat option"

definition valid_status :: "nat \<Rightarrow> bool" where
  "valid_status n = (400 \<le> n \<and> n < 600)"

fun error_status :: "error \<Rightarrow> nat" where
  "error_status (HttpError n m) = (if valid_status n then n else 500)"
| "error_status (ProviderError (Some n)) = (if valid_status n then n else 500)"
| "error_status _ = 500"

section \<open>The normalizer: fetchWeather\<close>

text \<open>
  \<^verbatim>\<open>a.k\<close> throws a \<^verbatim>\<open>TypeError\<close> on \<^verbatim>\<open>undefined\<close> and \<^verbatim>\<open>null\<close>; \<^verbatim>\<open>a?.k\<close> reads
  \<^verbatim>\<open>undefined\<close> there; \<^verbatim>\<open>a ?? d\<close> is \<open>d\<close> exactly when \<open>a\<close> is \<^verbatim>\<open>undefined\<close> or
  \<^verbatim>\<open>null\<close>.
\<close>

definition get :: "jsval \<Rightarrow> string \<Rightarrow> error + jsval" where
  "get v k = (if nullish v then Inl TypeError else Inr (member v k))"

definition opt :: "jsval \<Rightarrow> string \<Rightarrow> jsval" where
  "opt v k = (if nullish v then Undefined else member v k)"

definition coalesce :: "jsval \<Rightarrow> jsval \<Rightarrow> jsval" where
  "coalesce v d = (if nullish v then d else v)"

text \<open>
  The object literal that \<^verbatim>\<open>fetchWeather\<close> returns, from the response body \<open>data\<close>
  and the time \<open>now\<close> that \<^verbatim>\<open>new Date()\<close> reads. \<^verbatim>\<open>data.name\<close> is evaluated first and
  is the only read that can throw.
\<close>

definition normalize_response :: "int \<Rightarrow> jsval \<Rightarrow> error + jsval" where
  "normalize_response now data =
     (case get data ''name'' of
        Inl e \<Rightarrow> Inl e
      | Inr name \<Rightarrow>
          Inr (JObj
            [(''city'', name),
             (''country'', coalesce (opt (member data ''sys'') ''country'') (JStr ''NA'')),
             (''coordinates'', JObj
                [(''lon'', coalesce (opt (member data ''coord'') ''lon'') (JNum (Fin 0))),
                 (''lat'', coalesce (opt (member data ''coord'') ''lat'') (JNum (Fin 0)))]),
             (''temp'', coalesce (opt (member data ''main'') ''temp'') (JNum (Fin 0))),
             (''feelsLike'', coalesce (opt (member data ''main'') ''feels_like'') (JNum (Fin 0))),
             (''humidity'', coalesce (opt (member data ''main'') ''humidity'') (JNum (Fin 0))),
             (''pressure'', coalesce (opt (member data ''main'') ''pressure'') (JNum (Fin 0))),
             (''windSpeed'', coalesce (opt (member data ''wind'') ''speed'') (JNum (Fin 0))),
             (''condition'',
                coalesce (opt (opt (member data ''weather'') ''0'') ''main'') (JStr ''Unknown'')),
             (''description'',
                coalesce (opt (opt (member data ''weather'') ''0'') ''description'')
                  (JStr ''Unknown'')),
             (''fetchedAt'', JDate (Some now))]))"

text \<open>
  What the specification calls a missing field of the response: following the path
  from the body, some step is absent or \<^verbatim>\<open>null\<close>.
\<close>

fun lookup_path :: "jsval \<Rightarrow> string list \<Rightarrow> jsval" where
  "lookup_path v [] = v"
| "lookup_path v (k # ks) = (if nullish v then Undefined else lookup_path (member v k) ks)"

definition missing :: "jsval \<Rightarrow> string list \<Rightarrow> bool" where
  "missing data p = nullish (lookup_path data p)"

section \<open>The validation layer: weatherSchema\<close>

text \<open>
  \<^verbatim>\<open>weatherSchema.parse\<close> of zod builds a fresh object from the keys of the schema, in
  the schema's order, and collects one issue per failing check, each with the path of
  its field. A check of a nested object that is not an object reports the object's own
  path. \<^verbatim>\<open>z.number()\<close> refuses \<^verbatim>\<open>NaN\<close> and takes the infinities; \<^verbatim>\<open>.int()\<close> asks for
  \<^verbatim>\<open>Number.isInteger\<close>; \<^verbatim>\<open>z.date()\<close> asks for a \<^verbatim>\<open>Date\<close> whose time is not \<^verbatim>\<open>NaN\<close>.
  Nothing is coerced. The parsed object is the record \<open>weather\<close>.
\<close>

record coords =
  lon :: jsnum
  lat :: jsnum

record weather =
  city :: string
  country :: string
  coordinates :: coords
  temp :: jsnum
  feelsLike :: jsnum
  humidity :: jsnum
  pressure :: jsnum
  windSpeed :: jsnum
  condition :: string
  description :: string
  fetchedAt :: int

type_synonym 'a parsed = "issue list + 'a"

definition invalid :: "string list \<Rightarrow> issue_code \<Rightarrow> 'a parsed" where
  "invalid p c = Inl [\<lparr>path = p, code = c\<rparr>]"

fun z_string :: "string list \<Rightarrow> jsval \<Rightarrow> string parsed" where
  "z_string p (JStr s) = Inr s"
| "z_string p _ = invalid p Invalid_type"

definition z_string_min :: "nat \<Rightarrow> string list \<Rightarrow> jsval \<Rightarrow> string parsed" where
  "z_string_min n p v =
     (case z_string p v of
        Inl e \<Rightarrow> Inl e
      | Inr s \<Rightarrow> if length s < n then invalid p Too_small else Inr s)"

fun z_number :: "string list \<Rightarrow> jsval \<Rightarrow> jsnum parsed" where
  "z_number p (JNum NaN) = invalid p Invalid_type"
| "z_number p (JNum n) = Inr n"
| "z_number p _ = invalid p Invalid_type"

fun isInteger :: "jsnum \<Rightarrow> bool" where
  "isInteger (Fin r) = (of_int \<lfloor>r\<rfloor> = r)"
| "isInteger _ = False"

definition z_int :: "string list \<Rightarrow> jsval \<Rightarrow> jsnum parsed" where
  "z_int p v =
     (case z_number p v of
        Inl e \<Rightarrow> Inl e
      | Inr n \<Rightarrow> if isInteger n then Inr n else invalid p Invalid_type)"

fun z_date :: "string list \<Rightarrow> jsval \<Rightarrow> int parsed" where
  "z_date p (JDate (Some t)) = Inr t"
| "z_date p (JDate None) = invalid p Invalid_date"
| "z_date p _ = invalid p Invalid_type"

fun issues :: "'a parsed \<Rightarrow> issue list" where
  "issues (Inl e) = e"
| "issues (Inr a) = []"

text \<open>An object's result is valid when every key's is; otherwise all issues are kept.\<close>

fun both :: "'a parsed \<Rightarrow> 'b parsed \<Rightarrow> ('a \<times> 'b) parsed" where
  "both (Inr a) (Inr b) = Inr (a, b)"
| "both x y = Inl (issues x @ issues y)"

fun is_object :: "jsval \<Rightarrow> bool" where
  "is_object (JObj kvs) = True"
| "is_object _ = False"

definition coords_schema :: "string list \<Rightarrow> jsval \<Rightarrow> coords parsed" where
  "coords_schema p v =
     (if is_object v then
        map_sum id (\<lambda>(lo, la). \<lparr>lon = lo, lat = la\<rparr>)
          (both (z_number (p @ [''lon'']) (member v ''lon''))
                (z_number (p @ [''lat'']) (member v ''lat'')))
      else invalid p Invalid_type)"

definition mk_weather ::
  "string \<times> string \<times> coords \<times> jsnum \<times> jsnum \<times> jsnum \<times> jsnum \<times> jsnum \<times> string \<times> string \<times> int
     \<Rightarrow> weather" where
  "mk_weather = (\<lambda>(ci, co, cs, te, fe, hu, pr, wi, cn, de, fa).
     \<lparr>city = ci, country = co, coordinates = cs, temp = te, feelsLike = fe, humidity = hu,
      pressure = pr, windSpeed = wi, condition = cn, description = de, fetchedAt = fa\<rparr>)"

definition weatherSchema_parse :: "jsval \<Rightarrow> weather parsed" where
  "weatherSchema_parse v =
     (if is_object v then
        map_sum id mk_weather
          (both (z_string [''city''] (member v ''city''))
          (both (z_string_min 2 [''country''] (member v ''country''))
          (both (coords_schema [''coordinates''] (member v ''coordinates''))
          (both (z_number [''temp''] (member v ''temp''))
          (both (z_number [''feelsLike''] (member v ''feelsLike''))
          (both (z_int [''humidity''] (member v ''humidity''))
          (both (z_int [''pressure''] (member v ''pressure''))
          (both (z_number [''windSpeed''] (member v ''windSpeed''))
          (both (z_string [''condition''] (member v ''condition''))
          (both (z_string [''description''] (member v ''description''))
                (z_date [''fetchedAt''] (member v ''fetchedAt''))))))))))))
      else invalid [] Invalid_type)"

section \<open>The store: the Weather model of Mongoose\<close>

text \<open>
  A stored document has the fields of the schema in \<^verbatim>\<open>models/weather.js\<close>, the \<^verbatim>\<open>_id\<close>
  the driver generates and the two timestamps of \<^verbatim>\<open>{ timestamps: true }\<close> (the version
  key, always 0 here, is left out). The collection is the list of its documents in
  insertion order. An \<^verbatim>\<open>ObjectId\<close> is the number its 24 hexadecimal digits write; the
  driver draws a new one for each document it constructs, here from a counter. The
  state also holds the clock that \<^verbatim>\<open>new Date()\<close> and \<^verbatim>\<open>Date.now\<close> read, and the log of the
  requests sent to the weather provider. The connection is taken to be up.
\<close>

record doc = weather +
  doc_id :: nat
  createdAt :: int
  updatedAt :: int

record world =
  docs :: "doc list"
  fresh :: nat
  clock :: int
  calls :: "(jsval \<times> string) list"

definition is_hex :: "char \<Rightarrow> bool" where
  "is_hex c = (is_digit c \<or> ((65::nat) \<le> of_char c \<and> (of_char c :: nat) \<le> 70)
                \<or> ((97::nat) \<le> of_char c \<and> (of_char c :: nat) \<le> 102))"

definition hex_val :: "char \<Rightarrow> nat" where
  "hex_val c = (if is_digit c then of_char c - 48
                else if (of_char c :: nat) \<le> 70 then of_char c - 55 else of_char c - 87)"

text \<open>
  The cast of a path parameter to an \<^verbatim>\<open>ObjectId\<close>: its form of 24 hexadecimal digits, in
  either case. Other forms that some versions of the driver also take are not modelled.
\<close>

definition castObjectId :: "string \<Rightarrow> nat option" where
  "castObjectId s =
     (if length s = 24 \<and> list_all is_hex s
      then Some (foldl (\<lambda>a c. 16 * a + hex_val c) 0 s) else None)"

text \<open>
  The schema marks \<^verbatim>\<open>city\<close> and \<^verbatim>\<open>country\<close> as \<^verbatim>\<open>required\<close>, which for a string path
  refuses the empty string; the coordinates are required numbers, which every parsed
  record has.
\<close>

definition failed_required :: "weather \<Rightarrow> string list" where
  "failed_required r =
     (if city r = [] then [''city''] else []) @ (if country r = [] then [''country''] else [])"

definition new_doc :: "weather \<Rightarrow> nat \<Rightarrow> int \<Rightarrow> doc" where
  "new_doc r i t =
     \<lparr>city = city r, country = country r, coordinates = coordinates r, temp = temp r,
      feelsLike = feelsLike r, humidity = humidity r, pressure = pressure r,
      windSpeed = windSpeed r, condition = condition r, description = description r,
      fetchedAt = fetchedAt r, doc_id = i, createdAt = t, updatedAt = t\<rparr>"

text \<open>\<^verbatim>\<open>Weather.create(parsed)\<close>: construct, validate, insert.\<close>

definition Weather_create :: "weather \<Rightarrow> world \<Rightarrow> (error + doc) \<times> world" where
  "Weather_create r w =
     (let d = new_doc r (fresh w) (clock w);
          w1 = w\<lparr>fresh := Suc (fresh w)\<rparr>
      in if failed_required r \<noteq> [] then (Inl (ValidationError (failed_required r)), w1)
         else (Inr d, w1\<lparr>docs := docs w1 @ [d]\<rparr>))"

text \<open>
  \<^verbatim>\<open>Weather.find(query).sort({ fetchedAt: -1 }).limit(n)\<close>. The query is \<^verbatim>\<open>{}\<close> or
  \<^verbatim>\<open>{ city }\<close>, an exact match. The sort is by descending \<^verbatim>\<open>fetchedAt\<close>; the store
  promises no order among documents with equal keys, and the model keeps them in
  insertion order. The limit is a numeric value: a positive \<open>n\<close>
  keeps the first \<open>n\<close> documents, 0 sets no limit, a negative \<open>n\<close> keeps the first
  \<open>-n\<close>. \<^verbatim>\<open>NaN\<close>, which \<^verbatim>\<open>Number\<close> gives a text that is no number, sets no limit (the test of
  the non-numeric limit in \<^verbatim>\<open>weather.api.test.js\<close>). Fractional and infinite limits are
  not modelled.
\<close>

datatype limit_value = NotANumber | Whole int

definition Weather_find :: "string option \<Rightarrow> doc list \<Rightarrow> doc list" where
  "Weather_find q ds = (case q of None \<Rightarrow> ds | Some c \<Rightarrow> filter (\<lambda>d. city d = c) ds)"

definition sort_fetchedAt_desc :: "doc list \<Rightarrow> doc list" where
  "sort_fetchedAt_desc ds = sort_key (\<lambda>d. - fetchedAt d) ds"

fun limit_docs :: "limit_value \<Rightarrow> doc list \<Rightarrow> doc list" where
  "limit_docs NotANumber ds = ds"
| "limit_docs (Whole n) ds =
     (if n = 0 then ds else if 0 < n then take (nat n) ds else take (nat (- n)) ds)"

text \<open>
  \<^verbatim>\<open>findById\<close>, \<^verbatim>\<open>findByIdAndUpdate\<close> and \<^verbatim>\<open>findByIdAndDelete\<close> first cast the id and reject
  with a \<^verbatim>\<open>CastError\<close> when it is malformed; they act on the first document with that
  id and resolve to \<^verbatim>\<open>null\<close> when there is none.
\<close>

definition Weather_findById :: "string \<Rightarrow> world \<Rightarrow> error + doc option" where
  "Weather_findById s w =
     (case castObjectId s of
        None \<Rightarrow> Inl (CastError s)
      | Some i \<Rightarrow> Inr (find (\<lambda>d. doc_id d = i) (docs w)))"

fun update_first :: "nat \<Rightarrow> (doc \<Rightarrow> doc) \<Rightarrow> doc list \<Rightarrow> doc list" where
  "update_first i f [] = []"
| "update_first i f (d # ds) = (if doc_id d = i then f d # ds else d # update_first i f ds)"

fun remove_first :: "nat \<Rightarrow> doc list \<Rightarrow> doc list" where
  "remove_first i [] = []"
| "remove_first i (d # ds) = (if doc_id d = i then ds else d # remove_first i ds)"

text \<open>
  The update sets every field of the parsed record and refreshes \<^verbatim>\<open>updatedAt\<close>; with
  \<^verbatim>\<open>runValidators\<close> the required checks run on the fields that are set, and with
  \<^verbatim>\<open>new: true\<close> the updated document is returned.
\<close>

definition set_fields :: "weather \<Rightarrow> int \<Rightarrow> doc \<Rightarrow> doc" where
  "set_fields r t d = new_doc r (doc_id d) (createdAt d) \<lparr>updatedAt := t\<rparr>"

definition Weather_findByIdAndUpdate ::
  "string \<Rightarrow> weather \<Rightarrow> world \<Rightarrow> (error + doc option) \<times> world" where
  "Weather_findByIdAndUpdate s r w =
     (case castObjectId s of
        None \<Rightarrow> (Inl (CastError s), w)
      | Some i \<Rightarrow>
          if failed_required r \<noteq> [] then (Inl (ValidationError (failed_required r)), w)
          else (case find (\<lambda>d. doc_id d = i) (docs w) of
                  None \<Rightarrow> (Inr None, w)
                | Some d \<Rightarrow>
                    (Inr (Some (set_fields r (clock w) d)),
                     w\<lparr>docs := update_first i (set_fields r (clock w)) (docs w)\<rparr>)))"

definition Weather_findByIdAndDelete :: "string \<Rightarrow> world \<Rightarrow> (error + doc option) \<times> world" where
  "Weather_findByIdAndDelete s w =
     (case castObjectId s of
        None \<Rightarrow> (Inl (CastError s), w)
      | Some i \<Rightarrow>
          (case find (\<lambda>d. doc_id d = i) (docs w) of
             None \<Rightarrow> (Inr None, w)
           | Some d \<Rightarrow> (Inr (Some d), w\<lparr>docs := remove_first i (docs w)\<rparr>)))"

section \<open>The router\<close>

text \<open>
  A handler takes the parts of the request it reads and the state, and returns what
  it sends (\<^verbatim>\<open>res.status(...).json(...)\<close>, 200 when no status is set) or the error it
  passes to \<^verbatim>\<open>next\<close>, with the new state. The provider is the HTTP call of
  \<^verbatim>\<open>axios.get\<close>: from the city and the key, the decoded body of a 2xx response or the
  error of anything else. The router is modelled as the tests mount it; the session
  guard in front of it is not part of it.
\<close>

datatype body = Doc doc | Docs "doc list" | Deleted nat

datatype reply = Reply nat body

type_synonym outcome = "(error + reply) \<times> world"

type_synonym provider = "jsval \<Rightarrow> string \<Rightarrow> error + jsval"

record env =
  OPENWEATHER_API_KEY :: "string option"
  DEFAULT_CITY :: "string option"

fun status :: "error + reply \<Rightarrow> nat" where
  "status (Inl e) = error_status e"
| "status (Inr (Reply n b)) = n"

definition fetchWeather :: "provider \<Rightarrow> jsval \<Rightarrow> string \<Rightarrow> world \<Rightarrow> (error + jsval) \<times> world" where
  "fetchWeather prov c apiKey w =
     (let w1 = w\<lparr>calls := calls w @ [(c, apiKey)]\<rparr>
      in case prov c apiKey of
           Inl e \<Rightarrow> (Inl e, w1)
         | Inr data \<Rightarrow> (normalize_response (clock w1) data, w1))"

text \<open>\<^verbatim>\<open>a || process.env.DEFAULT_CITY || "Philadelphia"\<close>\<close>

definition city_or_default :: "jsval \<Rightarrow> env \<Rightarrow> jsval" where
  "city_or_default c e =
     (if truthy c then c
      else case DEFAULT_CITY e of
             Some d \<Rightarrow> if d \<noteq> [] then JStr d else JStr ''Philadelphia''
           | None \<Rightarrow> JStr ''Philadelphia'')"

text \<open>The key is missing when the variable is unset or empty: \<^verbatim>\<open>!OPENWEATHER_API_KEY\<close>.\<close>

definition api_key :: "env \<Rightarrow> error + string" where
  "api_key e =
     (case OPENWEATHER_API_KEY e of
        None \<Rightarrow> Inl (HttpError 500 ''Missing OPENWEATHER_API_KEY'')
      | Some k \<Rightarrow> if k = [] then Inl (HttpError 500 ''Missing OPENWEATHER_API_KEY'') else Inr k)"

text \<open>The common tail of both creating handlers: parse, create, answer 201.\<close>

definition parse_and_create :: "jsval \<Rightarrow> world \<Rightarrow> outcome" where
  "parse_and_create candidate w =
     (case weatherSchema_parse candidate of
        Inl is \<Rightarrow> (Inl (ZodError is), w)
      | Inr parsed \<Rightarrow>
          (case Weather_create parsed w of
             (Inl e, w1) \<Rightarrow> (Inl e, w1)
           | (Inr created, w1) \<Rightarrow> (Inr (Reply 201 (Doc created)), w1)))"

text \<open>
  \<^verbatim>\<open>router.get("/")\<close>. The query's city is a text or absent, and an empty text is falsy,
  so it sets no filter. The limit is absent, and then 50, or it is the number that
  \<^verbatim>\<open>Number(limit)\<close> gives the query's text: \<open>Whole 2\<close> for \<^verbatim>\<open>?limit=2\<close>, \<open>Whole 0\<close> for
  \<^verbatim>\<open>?limit=0\<close> and for \<^verbatim>\<open>?limit=\<close>, \<open>NotANumber\<close> for \<^verbatim>\<open>?limit=abc\<close>. A parameter that
  is repeated or bracketed, which the query parser turns into an array or an object, is
  not modelled.
\<close>

definition get_list :: "string option \<Rightarrow> limit_value option \<Rightarrow> world \<Rightarrow> outcome" where
  "get_list q_city q_limit w =
     (let limit = (case q_limit of None \<Rightarrow> Whole 50 | Some l \<Rightarrow> l);
          query = (case q_city of None \<Rightarrow> None | Some c \<Rightarrow> if c \<noteq> [] then Some c else None)
      in (Inr (Reply 200
            (Docs (limit_docs limit (sort_fetchedAt_desc (Weather_find query (docs w)))))), w))"

text \<open>
  \<^verbatim>\<open>router.post("/")\<close>: the body is the object the body parser decoded;
  \<^verbatim>\<open>const { manual, ...rest } = req.body\<close>.
\<close>

definition post_weather :: "provider \<Rightarrow> env \<Rightarrow> (string \<times> jsval) list \<Rightarrow> world \<Rightarrow> outcome" where
  "post_weather prov e req_body w =
     (let manual = member (JObj req_body) ''manual'';
          rest = JObj (filter (\<lambda>(k, v). k \<noteq> ''manual'') req_body)
      in if truthy manual then parse_and_create rest w
         else (case api_key e of
                 Inl err \<Rightarrow> (Inl err, w)
               | Inr k \<Rightarrow>
                   (case fetchWeather prov (city_or_default (member rest ''city'') e) k w of
                      (Inl err, w1) \<Rightarrow> (Inl err, w1)
                    | (Inr candidate, w1) \<Rightarrow> parse_and_create candidate w1)))"

text \<open>\<^verbatim>\<open>router.get("/:id")\<close>\<close>

definition get_by_id :: "string \<Rightarrow> world \<Rightarrow> outcome" where
  "get_by_id s w =
     (case Weather_findById s w of
        Inl e \<Rightarrow> (Inl e, w)
      | Inr None \<Rightarrow> (Inl (HttpError 404 ''Weather record not found''), w)
      | Inr (Some d) \<Rightarrow> (Inr (Reply 200 (Doc d)), w))"

text \<open>\<^verbatim>\<open>router.put("/:id")\<close>\<close>

definition put_by_id :: "string \<Rightarrow> jsval \<Rightarrow> world \<Rightarrow> outcome" where
  "put_by_id s req_body w =
     (case weatherSchema_parse req_body of
        Inl is \<Rightarrow> (Inl (ZodError is), w)
      | Inr parsed \<Rightarrow>
          (case Weather_findByIdAndUpdate s parsed w of
             (Inl e, w1) \<Rightarrow> (Inl e, w1)
           | (Inr None, w1) \<Rightarrow> (Inl (HttpError 404 ''Weather record not found''), w1)
           | (Inr (Some updated), w1) \<Rightarrow> (Inr (Reply 200 (Doc updated)), w1)))"

text \<open>\<^verbatim>\<open>router.delete("/:id")\<close>\<close>

definition delete_by_id :: "string \<Rightarrow> world \<Rightarrow> outcome" where
  "delete_by_id s w =
     (case Weather_findByIdAndDelete s w of
        (Inl e, w1) \<Rightarrow> (Inl e, w1)
      | (Inr None, w1) \<Rightarrow> (Inl (HttpError 404 ''Weather record not found''), w1)
      | (Inr (Some removed), w1) \<Rightarrow> (Inr (Reply 200 (Deleted (doc_id removed))), w1))"

text \<open>\<^verbatim>\<open>router.post("/fetch")\<close>: the city comes from the query.\<close>

definition post_fetch :: "provider \<Rightarrow> env \<Rightarrow> string option \<Rightarrow> world \<Rightarrow> outcome" where
  "post_fetch prov e q_city w =
     (case api_key e of
        Inl err \<Rightarrow> (Inl err, w)
      | Inr k \<Rightarrow>
          (case fetchWeather prov
                  (city_or_default (case q_city of None \<Rightarrow> Undefined | Some c \<Rightarrow> JStr c) e) k w of
             (Inl err, w1) \<Rightarrow> (Inl err, w1)
           | (Inr normalized, w1) \<Rightarrow> parse_and_create normalized w1))"

section \<open>The bodies a request can carry\<close>

text \<open>
  The application reads bodies with \<^verbatim>\<open>express.json()\<close> and \<^verbatim>\<open>express.urlencoded()\<close> only.
  What they decode is built from \<^verbatim>\<open>null\<close>, booleans, numbers other than \<^verbatim>\<open>NaN\<close>, strings,
  arrays and objects: never \<^verbatim>\<open>undefined\<close> and never a \<^verbatim>\<open>Date\<close>.
\<close>

primrec decoded :: "jsval \<Rightarrow> bool" where
  "decoded Undefined = False"
| "decoded Null = True"
| "decoded (JBool b) = True"
| "decoded (JNum n) = (n \<noteq> NaN)"
| "decoded (JStr s) = True"
| "decoded (JDate t) = False"
| "decoded (JArr xs) = list_all (\<lambda>b. b) (map decoded xs)"
| "decoded (JObj kvs) = list_all snd (map (map_prod id decoded) kvs)"

fun is_date :: "jsval \<Rightarrow> bool" where
  "is_date (JDate t) = True"
| "is_date _ = False"

section \<open>The schema in the specification's words\<close>

text \<open>
  The specification's reading of the schema, for comparison with \<open>weatherSchema_parse\<close>:
  a string, a string of a minimum length, a number (a numeric value, so not \<^verbatim>\<open>NaN\<close>), an
  integer, a valid date; the field of a payload is what the path from it reads.
\<close>

fun is_string :: "jsval \<Rightarrow> bool" where
  "is_string (JStr s) = True"
| "is_string _ = False"

fun is_string_min :: "nat \<Rightarrow> jsval \<Rightarrow> bool" where
  "is_string_min n (JStr s) = (n \<le> length s)"
| "is_string_min n _ = False"

fun is_number :: "jsval \<Rightarrow> bool" where
  "is_number (JNum NaN) = False"
| "is_number (JNum n) = True"
| "is_number _ = False"

fun is_integer :: "jsval \<Rightarrow> bool" where
  "is_integer (JNum (Fin r)) = (r \<in> \<int>)"
| "is_integer _ = False"

fun is_valid_date :: "jsval \<Rightarrow> bool" where
  "is_valid_date (JDate (Some t)) = True"
| "is_valid_date _ = False"

definition satisfies_schema :: "jsval \<Rightarrow> bool" where
  "satisfies_schema p \<longleftrightarrow>
     is_string (lookup_path p [''city'']) \<and>
     is_string_min 2 (lookup_path p [''country'']) \<and>
     is_number (lookup_path p [''coordinates'', ''lon'']) \<and>
     is_number (lookup_path p [''coordinates'', ''lat'']) \<and>
     is_number (lookup_path p [''temp'']) \<and>
     is_number (lookup_path p [''feelsLike'']) \<and>
     is_integer (lookup_path p [''humidity'']) \<and>
     is_integer (lookup_path p [''pressure'']) \<and>
     is_number (lookup_path p [''windSpeed'']) \<and>
     is_string (lookup_path p [''condition'']) \<and>
     is_string (lookup_path p [''description'']) \<and>
     is_valid_date (lookup_path p [''fetchedAt''])"

text \<open>
  The offending fields of a payload, in the schema's order: the path of each field that
  fails its check; the path of \<^verbatim>\<open>coordinates\<close> itself when that is no object; the empty
  path when the payload is no object.
\<close>

definition bad :: "bool \<Rightarrow> string list \<Rightarrow> string list list" where
  "bad ok p = (if ok then [] else [p])"

definition offending_fields :: "jsval \<Rightarrow> string list list" where
  "offending_fields p =
     (if \<not> is_object p then [[]]
      else bad (is_string (member p ''city'')) [''city'']
         @ bad (is_string_min 2 (member p ''country'')) [''country'']
         @ (if \<not> is_object (member p ''coordinates'') then [[''coordinates'']]
            else bad (is_number (member (member p ''coordinates'') ''lon'')) [''coordinates'', ''lon'']
               @ bad (is_number (member (member p ''coordinates'') ''lat'')) [''coordinates'', ''lat''])
         @ bad (is_number (member p ''temp'')) [''temp'']
         @ bad (is_number (member p ''feelsLike'')) [''feelsLike'']
         @ bad (is_integer (member p ''humidity'')) [''humidity'']
         @ bad (is_integer (member p ''pressure'')) [''pressure'']
         @ bad (is_number (member p ''windSpeed'')) [''windSpeed'']
         @ bad (is_string (member p ''condition'')) [''condition'']
         @ bad (is_string (member p ''description'')) [''description'']
         @ bad (is_valid_date (member p ''fetchedAt'')) [''fetchedAt''])"

text \<open>A parsed record or a stored document as the object of its schema fields.\<close>

definition weather_json :: "'a weather_scheme \<Rightarrow> jsval" where
  "weather_json r =
     JObj [(''city'', JStr (city r)),
           (''country'', JStr (country r)),
           (''coordinates'', JObj [(''lon'', JNum (lon (coordinates r))),
                                   (''lat'', JNum (lat (coordinates r)))]),
           (''temp'', JNum (temp r)),
           (''feelsLike'', JNum (feelsLike r)),
           (''humidity'', JNum (humidity r)),
           (''pressure'', JNum (pressure r)),
           (''windSpeed'', JNum (windSpeed r)),
           (''condition'', JStr (condition r)),
           (''description'', JStr (description r)),
           (''fetchedAt'', JDate (Some (fetchedAt r)))]"

text \<open>Two values carry the same record when every field of the schema reads the same.\<close>

definition schema_paths :: "string list list" where
  "schema_paths =
     [[''city''], [''country''], [''coordinates'', ''lon''], [''coordinates'', ''lat''],
      [''temp''], [''feelsLike''], [''humidity''], [''pressure''], [''windSpeed''],
      [''condition''], [''description''], [''fetchedAt'']]"

definition same_fields :: "jsval \<Rightarrow> jsval \<Rightarrow> bool" where
  "same_fields a b = list_all (\<lambda>p. lookup_path a p = lookup_path b p) schema_paths"

text \<open>A result is sound when it is an error only with an issue to show.\<close>

definition sound :: "'a parsed \<Rightarrow> bool" where
  "sound x = (issues x = [] \<longrightarrow> \<not> isl x)"

text \<open>The default document of the helper \<^verbatim>\<open>makeFakeWeather\<close> in \<^verbatim>\<open>weather.api.test.js\<close>.\<close>

definition makeFakeWeather :: "(string \<times> jsval) list" where
  "makeFakeWeather =
     [(''city'', JStr ''Testville''),
      (''country'', JStr ''US''),
      (''coordinates'', JObj [(''lon'', JNum (Fin (- 751 / 10))), (''lat'', JNum (Fin (399 / 10)))]),
      (''temp'', JNum (Fin 21)),
      (''feelsLike'', JNum (Fin 20)),
      (''humidity'', JNum (Fin 55)),
      (''pressure'', JNum (Fin 1013)),
      (''windSpeed'', JNum (Fin 4)),
      (''condition'', JStr ''Clouds''),
      (''description'', JStr ''overcast clouds''),
      (''fetchedAt'', JDate (Some 1735689600000))]"

text \<open>
  A stored document as that helper makes it, with the id, the city and the fetch time
  chosen, and a collection of three of them.
\<close>

definition fake_doc :: "nat \<Rightarrow> string \<Rightarrow> int \<Rightarrow> doc" where
  "fake_doc i c t =
     \<lparr>city = c, country = ''US'',
      coordinates = \<lparr>lon = Fin (- 751 / 10), lat = Fin (399 / 10)\<rparr>,
      temp = Fin 21, feelsLike = Fin 20, humidity = Fin 55, pressure = Fin 1013,
      windSpeed = Fin 4, condition = ''Clouds'', description = ''overcast clouds'',
      fetchedAt = t, doc_id = i, createdAt = 0, updatedAt = 0\<rparr>"

definition three_docs :: world where
  "three_docs =
     \<lparr>docs = [fake_doc 0 ''City1'' 10, fake_doc 1 ''City2'' 30, fake_doc 2 ''City3'' 20],
      fresh = 3, clock = 40, calls = []\<rparr>"

text \<open>A provider that answers every request with a response for London.\<close>

definition london_provider :: provider where
  "london_provider c k =
     Inr (JObj [(''name'', JStr ''London''),
                (''sys'', JObj [(''country'', JStr ''GB'')]),
                (''coord'', JObj [(''lon'', JNum (Fin (- 1 / 8))), (''lat'', JNum (Fin (103 / 2)))]),
                (''main'', JObj [(''temp'', JNum (Fin 12)), (''feels_like'', JNum (Fin 11)),
                                 (''humidity'', JNum (Fin 80)), (''pressure'', JNum (Fin 1009))]),
                (''wind'', JObj [(''speed'', JNum (Fin 3))]),
                (''weather'', JArr [JObj [(''main'', JStr ''Rain''),
                                          (''description'', JStr ''light rain'')]])])"

text \<open>
  A provider whose response has only a name, a temperature and its own time \<^verbatim>\<open>dt\<close>, and
  a provider whose request fails with a 404.
\<close>

definition sparse_provider :: provider where
  "sparse_provider c k =
     Inr (JObj [(''name'', JStr ''London''),
                (''main'', JObj [(''temp'', JNum (Fin 5))]),
                (''dt'', JNum (Fin 1700000000))])"

definition failing_provider :: provider where
  "failing_provider c k = Inl (ProviderError (Some 404))"

text \<open>
  The same default document as a client sends it: \<^verbatim>\<open>JSON.stringify\<close> writes a \<^verbatim>\<open>Date\<close> as
  its ISO text, and the body parser reads that text back as a string.
\<close>

definition makeFakeWeather_json :: "(string \<times> jsval) list" where
  "makeFakeWeather_json =
     [(''city'', JStr ''Testville''),
      (''country'', JStr ''US''),
      (''coordinates'', JObj [(''lon'', JNum (Fin (- 751 / 10))), (''lat'', JNum (Fin (399 / 10)))]),
      (''temp'', JNum (Fin 21)),
      (''feelsLike'', JNum (Fin 20)),
      (''humidity'', JNum (Fin 55)),
      (''pressure'', JNum (Fin 1013)),
      (''windSpeed'', JNum (Fin 4)),
      (''condition'', JStr ''Clouds''),
      (''description'', JStr ''overcast clouds''),
      (''fetchedAt'', JStr ''2025-01-01T00:00:00.000Z'')]"

section \<open>The specification's words for the store and the router\<close>

text \<open>
  A payload satisfies the \<^verbatim>\<open>WeatherRecord\<close> of the specification's data model when it
  satisfies the schema and its city is not empty.
\<close>

definition is_weather_record :: "jsval \<Rightarrow> bool" where
  "is_weather_record p \<longleftrightarrow> satisfies_schema p \<and> is_string_min 1 (lookup_path p [''city''])"

text \<open>The keys of the canonical record.\<close>

definition schema_keys :: "string list" where
  "schema_keys =
     [''city'', ''country'', ''coordinates'', ''temp'', ''feelsLike'', ''humidity'',
      ''pressure'', ''windSpeed'', ''condition'', ''description'', ''fetchedAt'']"

text \<open>
  Two bodies have the same canonical part when they agree on every key of the schema;
  for the coordinates it is enough that both are objects, or both are not, with the same
  \<^verbatim>\<open>lon\<close> and \<^verbatim>\<open>lat\<close>.
\<close>

definition same_canonical :: "jsval \<Rightarrow> jsval \<Rightarrow> bool" where
  "same_canonical a b \<longleftrightarrow>
     (\<forall>k \<in> set schema_keys. k \<noteq> ''coordinates'' \<longrightarrow> member a k = member b k)
     \<and> (is_object (member a ''coordinates'') \<longleftrightarrow> is_object (member b ''coordinates''))
     \<and> member (member a ''coordinates'') ''lon'' = member (member b ''coordinates'') ''lon''
     \<and> member (member a ''coordinates'') ''lat'' = member (member b ''coordinates'') ''lat''"

text \<open>
  A list is ordered by \<^verbatim>\<open>fetchedAt\<close> descending; the documents that match the city filter
  of a request (an empty city is no filter); the documents a reply lists.
\<close>

definition descending :: "doc list \<Rightarrow> bool" where
  "descending ds = sorted_wrt (\<lambda>a b. fetchedAt b \<le> fetchedAt a) ds"

definition matching :: "string option \<Rightarrow> doc list \<Rightarrow> doc list" where
  "matching q_city ds =
     (case q_city of
        None \<Rightarrow> ds
      | Some c \<Rightarrow> if c = [] then ds else filter (\<lambda>d. city d = c) ds)"

definition listed :: "error + reply \<Rightarrow> doc list" where
  "listed x = (case x of Inr (Reply n (Docs ds)) \<Rightarrow> ds | _ \<Rightarrow> [])"

text \<open>
  The store keeps ids unique: no two documents share one, and the generator has not
  yet reached any id in use. Every stored city is non-empty.
\<close>

definition unique_ids :: "world \<Rightarrow> bool" where
  "unique_ids w \<longleftrightarrow> distinct (map doc_id (docs w)) \<and> (\<forall>d \<in> set (docs w). doc_id d < fresh w)"

definition cities_nonempty :: "world \<Rightarrow> bool" where
  "cities_nonempty w \<longleftrightarrow> (\<forall>d \<in> set (docs w). city d \<noteq> [])"

section \<open>Properties of the normalizer\<close>

lemma if_missing:
  "(if missing d p then x else lookup_path d p) = coalesce (lookup_path d p) x"
  by (simp add: missing_def coalesce_def)

text \<open>
  The record built from a response body: \<^verbatim>\<open>fetchedAt\<close> is the time given, each optional
  field that is missing gets its default, a field that is present is copied. The only
  body with no record is \<^verbatim>\<open>null\<close> or \<^verbatim>\<open>undefined\<close>, where reading the name throws.
\<close>

lemma normalize_response_defaults:
  "case normalize_response now data of
     Inl e \<Rightarrow> nullish data
   | Inr r \<Rightarrow>
       member r ''fetchedAt'' = JDate (Some now)
     \<and> member r ''city'' = member data ''name''
     \<and> member r ''country'' =
         (if missing data [''sys'', ''country''] then JStr ''NA''
          else lookup_path data [''sys'', ''country''])
     \<and> member (member r ''coordinates'') ''lon'' =
         (if missing data [''coord'', ''lon''] then JNum (Fin 0)
          else lookup_path data [''coord'', ''lon''])
     \<and> member (member r ''coordinates'') ''lat'' =
         (if missing data [''coord'', ''lat''] then JNum (Fin 0)
          else lookup_path data [''coord'', ''lat''])
     \<and> member r ''temp'' =
         (if missing data [''main'', ''temp''] then JNum (Fin 0)
          else lookup_path data [''main'', ''temp''])
     \<and> member r ''feelsLike'' =
         (if missing data [''main'', ''feels_like''] then JNum (Fin 0)
          else lookup_path data [''main'', ''feels_like''])
     \<and> member r ''humidity'' =
         (if missing data [''main'', ''humidity''] then JNum (Fin 0)
          else lookup_path data [''main'', ''humidity''])
     \<and> member r ''pressure'' =
         (if missing data [''main'', ''pressure''] then JNum (Fin 0)
          else lookup_path data [''main'', ''pressure''])
     \<and> member r ''windSpeed'' =
         (if missing data [''wind'', ''speed''] then JNum (Fin 0)
          else lookup_path data [''wind'', ''speed''])
     \<and> member r ''condition'' =
         (if missing data [''weather'', ''0'', ''main''] then JStr ''Unknown''
          else lookup_path data [''weather'', ''0'', ''main''])
     \<and> member r ''description'' =
         (if missing data [''weather'', ''0'', ''description''] then JStr ''Unknown''
          else lookup_path data [''weather'', ''0'', ''description''])"
proof (cases "nullish data")
  case True
  then have "normalize_response now data = Inl TypeError"
    by (simp add: normalize_response_def get_def)
  with True show ?thesis by simp
next
  case False
  have L2: "\<And>a b. lookup_path data [a, b] = opt (member data a) b"
    using False by (simp add: opt_def)
  have L3: "\<And>a b c. lookup_path data [a, b, c] = opt (opt (member data a) b) c"
    using False by (simp add: opt_def)
  show ?thesis
    unfolding if_missing unfolding L2 L3
    using False by (simp add: normalize_response_def get_def)
qed

text \<open>
  C2. For every provider, city and key, \<^verbatim>\<open>fetchWeather\<close> sends one request, which the
  state logs, and changes nothing else. A failed request is the failure of
  \<^verbatim>\<open>fetchWeather\<close>. For every response body, the record it returns stamps \<^verbatim>\<open>fetchedAt\<close>
  with the clock of the state, whatever the body holds, and each optional field that
  is missing from the body gets its default: the country \<^verbatim>\<open>"NA"\<close>, the numbers 0 (so the
  coordinates are 0 and 0), the condition and the description \<^verbatim>\<open>"Unknown"\<close>; a field
  that is present is copied. The only body with no record is \<^verbatim>\<open>null\<close> or \<^verbatim>\<open>undefined\<close>.
\<close>

theorem fetchWeather_defaults:
  "snd (fetchWeather prov c k w) = w\<lparr>calls := calls w @ [(c, k)]\<rparr>
   \<and> (\<forall>e. prov c k = Inl e \<longrightarrow> fst (fetchWeather prov c k w) = Inl e)
   \<and> (\<forall>data. prov c k = Inr data \<longrightarrow>
        (case fst (fetchWeather prov c k w) of
           Inl e \<Rightarrow> nullish data
         | Inr r \<Rightarrow>
             member r ''fetchedAt'' = JDate (Some (clock w))
           \<and> member r ''city'' = member data ''name''
           \<and> member r ''country'' =
               (if missing data [''sys'', ''country''] then JStr ''NA''
                else lookup_path data [''sys'', ''country''])
           \<and> member (member r ''coordinates'') ''lon'' =
               (if missing data [''coord'', ''lon''] then JNum (Fin 0)
                else lookup_path data [''coord'', ''lon''])
           \<and> member (member r ''coordinates'') ''lat'' =
               (if missing data [''coord'', ''lat''] then JNum (Fin 0)
                else lookup_path data [''coord'', ''lat''])
           \<and> member r ''temp'' =
               (if missing data [''main'', ''temp''] then JNum (Fin 0)
                else lookup_path data [''main'', ''temp''])
           \<and> member r ''feelsLike'' =
               (if missing data [''main'', ''feels_like''] then JNum (Fin 0)
                else lookup_path data [''main'', ''feels_like''])
           \<and> member r ''humidity'' =
               (if missing data [''main'', ''humidity''] then JNum (Fin 0)
                else lookup_path data [''main'', ''humidity''])
           \<and> member r ''pressure'' =
               (if missing data [''main'', ''pressure''] then JNum (Fin 0)
                else lookup_path data [''main'', ''pressure''])
           \<and> member r ''windSpeed'' =
               (if missing data [''wind'', ''speed''] then JNum (Fin 0)
                else lookup_path data [''wind'', ''speed''])
           \<and> member r ''condition'' =
               (if missing data [''weather'', ''0'', ''main''] then JStr ''Unknown''
                else lookup_path data [''weather'', ''0'', ''main''])
           \<and> member r ''description'' =
               (if missing data [''weather'', ''0'', ''description''] then JStr ''Unknown''
                else lookup_path data [''weather'', ''0'', ''description''])))"
proof (intro conjI allI impI)
  show "snd (fetchWeather prov c k w) = w\<lparr>calls := calls w @ [(c, k)]\<rparr>"
    by (simp add: fetchWeather_def Let_def split: sum.splits)
next
  fix e assume "prov c k = Inl e"
  then show "fst (fetchWeather prov c k w) = Inl e"
    by (simp add: fetchWeather_def Let_def)
next
  fix data assume "prov c k = Inr data"
  then have "fst (fetchWeather prov c k w) = normalize_response (clock w) data"
    by (simp add: fetchWeather_def Let_def)
  then show "case fst (fetchWeather prov c k w) of
           Inl e \<Rightarrow> nullish data
         | Inr r \<Rightarrow>
             member r ''fetchedAt'' = JDate (Some (clock w))
           \<and> member r ''city'' = member data ''name''
           \<and> member r ''country'' =
               (if missing data [''sys'', ''country''] then JStr ''NA''
                else lookup_path data [''sys'', ''country''])
           \<and> member (member r ''coordinates'') ''lon'' =
               (if missing data [''coord'', ''lon''] then JNum (Fin 0)
                else lookup_path data [''coord'', ''lon''])
           \<and> member (member r ''coordinates'') ''lat'' =
               (if missing data [''coord'', ''lat''] then JNum (Fin 0)
                else lookup_path data [''coord'', ''lat''])
           \<and> member r ''temp'' =
               (if missing data [''main'', ''temp''] then JNum (Fin 0)
                else lookup_path data [''main'', ''temp''])
           \<and> member r ''feelsLike'' =
               (if missing data [''main'', ''feels_like''] then JNum (Fin 0)
                else lookup_path data [''main'', ''feels_like''])
           \<and> member r ''humidity'' =
               (if missing data [''main'', ''humidity''] then JNum (Fin 0)
                else lookup_path data [''main'', ''humidity''])
           \<and> member r ''pressure'' =
               (if missing data [''main'', ''pressure''] then JNum (Fin 0)
                else lookup_path data [''main'', ''pressure''])
           \<and> member r ''windSpeed'' =
               (if missing data [''wind'', ''speed''] then JNum (Fin 0)
                else lookup_path data [''wind'', ''speed''])
           \<and> member r ''condition'' =
               (if missing data [''weather'', ''0'', ''main''] then JStr ''Unknown''
                else lookup_path data [''weather'', ''0'', ''main''])
           \<and> member r ''description'' =
               (if missing data [''weather'', ''0'', ''description''] then JStr ''Unknown''
                else lookup_path data [''weather'', ''0'', ''description''])"
    using normalize_response_defaults [where now = "clock w" and data = data] by simp
qed

theorem fetchWeather_defaults_witness:
  "sparse_provider (JStr ''London'') ''key''
     = Inr (JObj [(''name'', JStr ''London''), (''main'', JObj [(''temp'', JNum (Fin 5))]),
                  (''dt'', JNum (Fin 1700000000))])
   \<and> missing (JObj [(''name'', JStr ''London''), (''main'', JObj [(''temp'', JNum (Fin 5))]),
                  (''dt'', JNum (Fin 1700000000))]) [''sys'', ''country'']
   \<and> \<not> missing (JObj [(''name'', JStr ''London''), (''main'', JObj [(''temp'', JNum (Fin 5))]),
                  (''dt'', JNum (Fin 1700000000))]) [''main'', ''temp'']
   \<and> (\<exists>r. fst (fetchWeather sparse_provider (JStr ''London'') ''key'' three_docs) = Inr r
          \<and> member r ''country'' = JStr ''NA''
          \<and> member r ''temp'' = JNum (Fin 5)
          \<and> member r ''fetchedAt'' = JDate (Some 40))
   \<and> calls (snd (fetchWeather sparse_provider (JStr ''London'') ''key'' three_docs))
        = [(JStr ''London'', ''key'')]
   \<and> failing_provider (JStr ''Nowhere'') ''key'' = Inl (ProviderError (Some 404))
   \<and> fst (fetchWeather failing_provider (JStr ''Nowhere'') ''key'' three_docs)
        = Inl (ProviderError (Some 404))"
  using fetchWeather_defaults [of sparse_provider "JStr ''London''" "''key''" three_docs]
    fetchWeather_defaults [of failing_provider "JStr ''Nowhere''" "''key''" three_docs]
  by (simp add: sparse_provider_def failing_provider_def fetchWeather_def normalize_response_def
      get_def opt_def coalesce_def missing_def three_docs_def Let_def)

section \<open>Properties of the validation layer\<close>

lemma z_string_Inr: "z_string p v = Inr s \<longleftrightarrow> v = JStr s"
  by (cases v) (auto simp: invalid_def)

lemma z_string_issues: "map path (issues (z_string p v)) = bad (is_string v) p"
  by (cases v) (auto simp: invalid_def bad_def)

lemma z_string_min_Inr: "z_string_min n p v = Inr s \<longleftrightarrow> v = JStr s \<and> n \<le> length s"
  by (cases v) (auto simp: invalid_def z_string_min_def)

lemma z_string_min_issues: "map path (issues (z_string_min n p v)) = bad (is_string_min n v) p"
  by (cases v) (auto simp: invalid_def bad_def z_string_min_def)

lemma z_number_Inr: "z_number p v = Inr n \<longleftrightarrow> v = JNum n \<and> n \<noteq> NaN"
  by (induction p v rule: z_number.induct) (auto simp: invalid_def)

lemma z_number_issues: "map path (issues (z_number p v)) = bad (is_number v) p"
  by (induction p v rule: z_number.induct) (auto simp: invalid_def bad_def)

lemma isInteger_Ints: "isInteger n \<longleftrightarrow> (\<exists>r. n = Fin r \<and> r \<in> \<int>)"
  by (cases n) (auto elim!: Ints_cases)

lemma z_int_Inr: "z_int p v = Inr n \<longleftrightarrow> (\<exists>r. v = JNum (Fin r) \<and> r \<in> \<int> \<and> n = Fin r)"
  by (induction p v rule: z_number.induct) (auto simp: invalid_def z_int_def isInteger_Ints)

lemma z_int_issues: "map path (issues (z_int p v)) = bad (is_integer v) p"
  by (induction p v rule: z_number.induct) (auto simp: invalid_def bad_def z_int_def elim!: Ints_cases)

lemma z_date_Inr: "z_date p v = Inr t \<longleftrightarrow> v = JDate (Some t)"
  by (induction p v rule: z_date.induct) (auto simp: invalid_def)

lemma z_date_issues: "map path (issues (z_date p v)) = bad (is_valid_date v) p"
  by (induction p v rule: z_date.induct) (auto simp: invalid_def bad_def)

lemma both_Inr: "both x y = Inr ab \<longleftrightarrow> (\<exists>a b. x = Inr a \<and> y = Inr b \<and> ab = (a, b))"
  by (cases x; cases y) auto

lemma both_issues: "issues (both x y) = issues x @ issues y"
  by (cases x; cases y) auto

lemma issues_map_sum: "issues (map_sum id f x) = issues x"
  by (cases x) auto

lemma sound_invalid [simp]: "sound (invalid p c)"
  by (simp add: sound_def invalid_def)

lemma sound_Inr [simp]: "sound (Inr a)"
  by (simp add: sound_def)

lemma sound_both: "sound x \<Longrightarrow> sound y \<Longrightarrow> sound (both x y)"
  by (cases x; cases y) (auto simp: sound_def)

lemma sound_map_sum: "sound x \<Longrightarrow> sound (map_sum id f x)"
  by (cases x) (auto simp: sound_def)

lemma sound_z_string: "sound (z_string p v)"
  by (cases v) auto

lemma sound_z_string_min: "sound (z_string_min n p v)"
  by (cases v) (auto simp: z_string_min_def invalid_def sound_def)

lemma sound_z_number: "sound (z_number p v)"
  by (induction p v rule: z_number.induct) auto

lemma sound_z_int: "sound (z_int p v)"
  by (induction p v rule: z_number.induct) (auto simp: z_int_def invalid_def sound_def)

lemma sound_z_date: "sound (z_date p v)"
  by (induction p v rule: z_date.induct) auto

lemma sound_coords: "sound (coords_schema p v)"
  by (simp add: coords_schema_def sound_map_sum sound_both sound_z_number)

lemma sound_parse: "sound (weatherSchema_parse v)"
  by (simp add: weatherSchema_parse_def sound_map_sum sound_both sound_z_number sound_z_string
      sound_z_string_min sound_z_int sound_z_date sound_coords)

lemma coords_issues:
  "map path (issues (coords_schema p v)) =
     (if \<not> is_object v then [p]
      else bad (is_number (member v ''lon'')) (p @ [''lon''])
         @ bad (is_number (member v ''lat'')) (p @ [''lat'']))"
  by (simp add: coords_schema_def issues_map_sum both_issues z_number_issues invalid_def)

lemma parse_issues: "map path (issues (weatherSchema_parse p)) = offending_fields p"
  by (simp add: weatherSchema_parse_def offending_fields_def issues_map_sum both_issues
      z_number_issues z_string_issues z_string_min_issues z_int_issues z_date_issues
      coords_issues invalid_def)

lemma parse_Inl: "weatherSchema_parse p = Inl is \<Longrightarrow> is \<noteq> [] \<and> map path is = offending_fields p"
  using sound_parse [of p] parse_issues [of p] by (auto simp: sound_def)

lemma parse_Inr_iff: "(\<exists>r. weatherSchema_parse p = Inr r) \<longleftrightarrow> offending_fields p = []"
proof
  assume "\<exists>r. weatherSchema_parse p = Inr r"
  then show "offending_fields p = []" using parse_issues [of p] by auto
next
  assume "offending_fields p = []"
  then have "issues (weatherSchema_parse p) = []" using parse_issues [of p] by simp
  then have "\<not> isl (weatherSchema_parse p)" using sound_parse [of p] by (simp add: sound_def)
  then show "\<exists>r. weatherSchema_parse p = Inr r" by (cases "weatherSchema_parse p") auto
qed

lemma index_of_key_names [simp]:
  "index_of_key ''city'' = None" "index_of_key ''country'' = None"
  "index_of_key ''coordinates'' = None" "index_of_key ''lon'' = None"
  "index_of_key ''lat'' = None" "index_of_key ''temp'' = None"
  "index_of_key ''feelsLike'' = None" "index_of_key ''humidity'' = None"
  "index_of_key ''pressure'' = None" "index_of_key ''windSpeed'' = None"
  "index_of_key ''condition'' = None" "index_of_key ''description'' = None"
  "index_of_key ''fetchedAt'' = None" "index_of_key ''manual'' = None"
  by (simp_all add: index_of_key_def is_digit_def)

lemma member_non_object:
  "\<not> is_object v \<Longrightarrow> index_of_key k = None \<Longrightarrow> k \<noteq> ''length'' \<Longrightarrow> member v k = Undefined"
  by (cases v) auto

lemma bad_Nil [simp]: "bad ok p = [] \<longleftrightarrow> ok"
  by (simp add: bad_def)

lemma satisfies_iff_no_offending: "satisfies_schema p \<longleftrightarrow> offending_fields p = []"
proof (cases "is_object p")
  case False
  then have "member p ''city'' = Undefined" by (simp add: member_non_object)
  with False show ?thesis by (simp add: satisfies_schema_def offending_fields_def)
next
  case True
  then have np: "\<not> nullish p" by (cases p) auto
  show ?thesis
  proof (cases "is_object (member p ''coordinates'')")
    case False
    then have "member (member p ''coordinates'') ''lon'' = Undefined"
      by (simp add: member_non_object)
    with False True np show ?thesis by (simp add: satisfies_schema_def offending_fields_def)
  next
    case co: True
    then have "\<not> nullish (member p ''coordinates'')" by (cases "member p ''coordinates''") auto
    with co True np show ?thesis by (auto simp add: satisfies_schema_def offending_fields_def)
  qed
qed

lemma map_sum_Inr: "map_sum id f x = Inr r \<longleftrightarrow> (\<exists>a. x = Inr a \<and> r = f a)"
  by (cases x) auto

lemma coords_Inr:
  "coords_schema p v = Inr c \<longleftrightarrow>
     is_object v \<and> member v ''lon'' = JNum (lon c) \<and> lon c \<noteq> NaN
       \<and> member v ''lat'' = JNum (lat c) \<and> lat c \<noteq> NaN"
  by (cases c) (auto simp: coords_schema_def map_sum_Inr both_Inr z_number_Inr invalid_def)

lemma parse_Inr_fields:
  assumes "weatherSchema_parse p = Inr r"
  shows "is_object p" "member p ''city'' = JStr (city r)"
    "member p ''country'' = JStr (country r)" "2 \<le> length (country r)"
    "is_object (member p ''coordinates'')"
    "member (member p ''coordinates'') ''lon'' = JNum (lon (coordinates r))"
    "member (member p ''coordinates'') ''lat'' = JNum (lat (coordinates r))"
    "member p ''temp'' = JNum (temp r)"
    "member p ''feelsLike'' = JNum (feelsLike r)"
    "member p ''humidity'' = JNum (humidity r)"
    "member p ''pressure'' = JNum (pressure r)"
    "member p ''windSpeed'' = JNum (windSpeed r)"
    "member p ''condition'' = JStr (condition r)"
    "member p ''description'' = JStr (description r)"
    "member p ''fetchedAt'' = JDate (Some (fetchedAt r))"
proof -
  show obj: "is_object p"
    using assms by (auto simp: weatherSchema_parse_def invalid_def split: if_splits)
  from assms obj obtain ci co cs te fe hu pr wi cn de fa where
    r: "r = mk_weather (ci, co, cs, te, fe, hu, pr, wi, cn, de, fa)" and
    c: "z_string [''city''] (member p ''city'') = Inr ci"
       "z_string_min 2 [''country''] (member p ''country'') = Inr co"
       "coords_schema [''coordinates''] (member p ''coordinates'') = Inr cs"
       "z_number [''temp''] (member p ''temp'') = Inr te"
       "z_number [''feelsLike''] (member p ''feelsLike'') = Inr fe"
       "z_int [''humidity''] (member p ''humidity'') = Inr hu"
       "z_int [''pressure''] (member p ''pressure'') = Inr pr"
       "z_number [''windSpeed''] (member p ''windSpeed'') = Inr wi"
       "z_string [''condition''] (member p ''condition'') = Inr cn"
       "z_string [''description''] (member p ''description'') = Inr de"
       "z_date [''fetchedAt''] (member p ''fetchedAt'') = Inr fa"
    by (auto simp: weatherSchema_parse_def map_sum_Inr both_Inr)
  have sel: "city r = ci" "country r = co" "coordinates r = cs" "temp r = te" "feelsLike r = fe"
    "humidity r = hu" "pressure r = pr" "windSpeed r = wi" "condition r = cn"
    "description r = de" "fetchedAt r = fa"
    by (simp_all add: r mk_weather_def)
  show "member p ''city'' = JStr (city r)" using c(1) by (simp add: z_string_Inr sel)
  show "member p ''country'' = JStr (country r)" "2 \<le> length (country r)"
    using c(2) by (simp_all add: z_string_min_Inr sel)
  show "is_object (member p ''coordinates'')"
    "member (member p ''coordinates'') ''lon'' = JNum (lon (coordinates r))"
    "member (member p ''coordinates'') ''lat'' = JNum (lat (coordinates r))"
    using c(3) by (simp_all add: coords_Inr sel)
  show "member p ''temp'' = JNum (temp r)" using c(4) by (simp add: z_number_Inr sel)
  show "member p ''feelsLike'' = JNum (feelsLike r)" using c(5) by (simp add: z_number_Inr sel)
  show "member p ''humidity'' = JNum (humidity r)" using c(6) by (auto simp add: z_int_Inr sel)
  show "member p ''pressure'' = JNum (pressure r)" using c(7) by (auto simp add: z_int_Inr sel)
  show "member p ''windSpeed'' = JNum (windSpeed r)" using c(8) by (simp add: z_number_Inr sel)
  show "member p ''condition'' = JStr (condition r)" using c(9) by (simp add: z_string_Inr sel)
  show "member p ''description'' = JStr (description r)" using c(10) by (simp add: z_string_Inr sel)
  show "member p ''fetchedAt'' = JDate (Some (fetchedAt r))" using c(11) by (simp add: z_date_Inr sel)
qed

lemma is_object_not_nullish: "is_object v \<Longrightarrow> \<not> nullish v"
  by (cases v) auto

lemma parse_same_fields:
  assumes "weatherSchema_parse p = Inr r"
  shows "same_fields (weather_json r) p"
  using parse_Inr_fields [OF assms]
  by (simp add: same_fields_def schema_paths_def weather_json_def is_object_not_nullish)

text \<open>
  C3. The validation layer returns the typed record, with the payload's own field
  values, exactly when the payload satisfies the schema as the specification words it;
  otherwise it raises a \<^verbatim>\<open>ZodError\<close> whose issues are not empty and name, in order, the
  offending fields. Validation touches neither the store nor the network: a handler
  that stops at it leaves the state as it was.
\<close>

theorem validation_exact:
  "(satisfies_schema p \<longrightarrow>
      (\<exists>r. weatherSchema_parse p = Inr r \<and> same_fields (weather_json r) p))
   \<and> (\<not> satisfies_schema p \<longrightarrow>
      (\<exists>is. weatherSchema_parse p = Inl is \<and> is \<noteq> [] \<and> map path is = offending_fields p
         \<and> parse_and_create p w = (Inl (ZodError is), w)
         \<and> put_by_id s p w = (Inl (ZodError is), w)))"
proof (intro conjI impI)
  assume "satisfies_schema p"
  then obtain r where r: "weatherSchema_parse p = Inr r"
    using parse_Inr_iff [of p] satisfies_iff_no_offending [of p] by auto
  then show "\<exists>r. weatherSchema_parse p = Inr r \<and> same_fields (weather_json r) p"
    using parse_same_fields by blast
next
  assume "\<not> satisfies_schema p"
  then have "\<nexists>r. weatherSchema_parse p = Inr r"
    using parse_Inr_iff [of p] satisfies_iff_no_offending [of p] by simp
  then obtain "is" where i: "weatherSchema_parse p = Inl is"
    by (cases "weatherSchema_parse p") auto
  moreover have "is \<noteq> []" "map path is = offending_fields p"
    using parse_Inl [OF i] by simp_all
  moreover have "parse_and_create p w = (Inl (ZodError is), w)"
    by (simp add: parse_and_create_def i)
  moreover have "put_by_id s p w = (Inl (ZodError is), w)"
    by (simp add: put_by_id_def i)
  ultimately show "\<exists>is. weatherSchema_parse p = Inl is \<and> is \<noteq> []
      \<and> map path is = offending_fields p
      \<and> parse_and_create p w = (Inl (ZodError is), w)
      \<and> put_by_id s p w = (Inl (ZodError is), w)"
    by blast
qed

theorem validation_exact_witness:
  "satisfies_schema (JObj makeFakeWeather)
   \<and> (\<exists>r. weatherSchema_parse (JObj makeFakeWeather) = Inr r
          \<and> same_fields (weather_json r) (JObj makeFakeWeather))
   \<and> \<not> satisfies_schema (JObj [(''city'', JStr ''Testville''), (''humidity'', JNum (Fin (1 / 2)))])
   \<and> (\<exists>is. weatherSchema_parse
               (JObj [(''city'', JStr ''Testville''), (''humidity'', JNum (Fin (1 / 2)))]) = Inl is
          \<and> is \<noteq> []
          \<and> map path is =
              offending_fields (JObj [(''city'', JStr ''Testville''), (''humidity'', JNum (Fin (1 / 2)))]))"
proof -
  have ok: "satisfies_schema (JObj makeFakeWeather)"
    by (simp add: satisfies_schema_def makeFakeWeather_def)
  have ko: "\<not> satisfies_schema (JObj [(''city'', JStr ''Testville''), (''humidity'', JNum (Fin (1 / 2)))])"
    by (simp add: satisfies_schema_def)
  show ?thesis
    using ok ko validation_exact [of "JObj makeFakeWeather"]
      validation_exact [of "JObj [(''city'', JStr ''Testville''), (''humidity'', JNum (Fin (1 / 2)))]"]
    by blast
qed

section \<open>Properties of the list endpoint\<close>

lemma descending_sort: "descending (sort_fetchedAt_desc ds)"
proof -
  have "sorted (map (\<lambda>d. - fetchedAt d) (sort_key (\<lambda>d. - fetchedAt d) ds))"
    by (rule sorted_sort_key)
  then show ?thesis
    by (simp add: descending_def sort_fetchedAt_desc_def sorted_map)
qed

lemma descending_take: "descending ds \<Longrightarrow> descending (take n ds)"
  by (simp add: descending_def sorted_wrt_take)

lemma descending_limit: "descending ds \<Longrightarrow> descending (limit_docs l ds)"
  by (cases l) (simp_all add: descending_take)

lemma set_limit: "set (limit_docs l ds) \<subseteq> set ds"
  by (cases l) (auto dest: in_set_takeD)

lemma set_sort [simp]: "set (sort_fetchedAt_desc ds) = set ds"
  by (simp add: sort_fetchedAt_desc_def)

lemma length_sort [simp]: "length (sort_fetchedAt_desc ds) = length ds"
  by (simp add: sort_fetchedAt_desc_def)

lemma get_list_eq:
  "get_list q_city q_limit w =
     (Inr (Reply 200 (Docs (limit_docs (case q_limit of None \<Rightarrow> Whole 50 | Some l \<Rightarrow> l)
        (sort_fetchedAt_desc (matching q_city (docs w)))))), w)"
  by (simp add: get_list_def matching_def Weather_find_def split: option.splits)

text \<open>
  C4, as the code has it. Every call to list answers 200 and leaves the state alone;
  the documents it lists are ordered by \<^verbatim>\<open>fetchedAt\<close> descending and are among those
  matching the city filter, so all carry the city when a non-empty one is given; when
  the limit is a positive whole number the list holds that many documents or all the
  matching ones if they are fewer, and 50 stands in for an absent limit; with a limit of
  2 and three or more matching documents it holds exactly 2.
\<close>

theorem list_sorted_filtered_limited:
  "status (fst (get_list q_city q_limit w)) = 200
   \<and> snd (get_list q_city q_limit w) = w
   \<and> descending (listed (fst (get_list q_city q_limit w)))
   \<and> set (listed (fst (get_list q_city q_limit w))) \<subseteq> set (matching q_city (docs w))
   \<and> (\<forall>c. q_city = Some c \<and> c \<noteq> [] \<longrightarrow>
         (\<forall>d \<in> set (listed (fst (get_list q_city q_limit w))). city d = c))
   \<and> (\<forall>n. q_limit = Some (Whole n) \<and> 0 < n \<longrightarrow>
         length (listed (fst (get_list q_city q_limit w)))
           = min (nat n) (length (matching q_city (docs w))))
   \<and> (q_limit = None \<longrightarrow>
         length (listed (fst (get_list q_city q_limit w)))
           = min 50 (length (matching q_city (docs w))))
   \<and> (q_limit = Some (Whole 2) \<and> 3 \<le> length (matching q_city (docs w)) \<longrightarrow>
         length (listed (fst (get_list q_city q_limit w))) = 2)"
proof -
  let ?l = "case q_limit of None \<Rightarrow> Whole 50 | Some l \<Rightarrow> l"
  let ?m = "matching q_city (docs w)"
  have ds: "listed (fst (get_list q_city q_limit w)) = limit_docs ?l (sort_fetchedAt_desc ?m)"
    by (simp add: get_list_eq listed_def)
  have sub: "set (limit_docs ?l (sort_fetchedAt_desc ?m)) \<subseteq> set ?m"
    using set_limit [of ?l "sort_fetchedAt_desc ?m"] by simp
  have "status (fst (get_list q_city q_limit w)) = 200" "snd (get_list q_city q_limit w) = w"
    by (simp_all add: get_list_eq)
  moreover have "descending (listed (fst (get_list q_city q_limit w)))"
    unfolding ds by (intro descending_limit descending_sort)
  moreover have "set (listed (fst (get_list q_city q_limit w))) \<subseteq> set ?m"
    unfolding ds by (rule sub)
  moreover have "\<forall>c. q_city = Some c \<and> c \<noteq> [] \<longrightarrow>
         (\<forall>d \<in> set (listed (fst (get_list q_city q_limit w))). city d = c)"
    unfolding ds using sub by (auto simp: matching_def)
  moreover have "\<forall>n. q_limit = Some (Whole n) \<and> 0 < n \<longrightarrow>
         length (listed (fst (get_list q_city q_limit w))) = min (nat n) (length ?m)"
    unfolding ds by (auto simp: min_def)
  moreover have "q_limit = None \<longrightarrow>
         length (listed (fst (get_list q_city q_limit w))) = min 50 (length ?m)"
    unfolding ds by (auto simp: min_def)
  moreover have "q_limit = Some (Whole 2) \<and> 3 \<le> length ?m \<longrightarrow>
         length (listed (fst (get_list q_city q_limit w))) = 2"
    unfolding ds by auto
  ultimately show ?thesis by blast
qed

theorem list_sorted_filtered_limited_witness:
  "3 \<le> length (matching None (docs three_docs))
   \<and> map city (listed (fst (get_list None (Some (Whole 2)) three_docs))) = [''City2'', ''City3'']
   \<and> map city (listed (fst (get_list (Some ''City1'') None three_docs))) = [''City1'']"
proof -
  have a: "3 \<le> length (matching None (docs three_docs))"
    by (simp add: matching_def three_docs_def)
  have b: "length (listed (fst (get_list None (Some (Whole 2)) three_docs))) = 2"
    using a list_sorted_filtered_limited [of None "Some (Whole 2)" three_docs] by blast
  have c: "\<forall>d \<in> set (listed (fst (get_list (Some ''City1'') None three_docs))). city d = ''City1''"
    using list_sorted_filtered_limited [of "Some ''City1''" None three_docs] by blast
  have "listed (fst (get_list None (Some (Whole 2)) three_docs))
          = [fake_doc 1 ''City2'' 30, fake_doc 2 ''City3'' 20]"
    by (simp add: get_list_eq listed_def matching_def three_docs_def sort_fetchedAt_desc_def
        fake_doc_def)
  moreover have "listed (fst (get_list (Some ''City1'') None three_docs))
          = [fake_doc 0 ''City1'' 10]"
    by (simp add: get_list_eq listed_def matching_def three_docs_def sort_fetchedAt_desc_def
        fake_doc_def)
  ultimately show ?thesis using a b c by (simp add: fake_doc_def)
qed

text \<open>
  C4 as stated fails for a limit of 0, which the store takes as no limit: with one
  stored document, \<^verbatim>\<open>GET /weather?limit=0\<close> lists one entry, more than the limit.
\<close>

theorem list_limit_zero_counterexample:
  "\<not> int (length (listed (fst (get_list None (Some (Whole 0))
        \<lparr>docs = [fake_doc 0 ''City1'' 10], fresh = 1, clock = 40, calls = []\<rparr>)))) \<le> 0"
  by (simp add: get_list_eq listed_def matching_def sort_fetchedAt_desc_def)

section \<open>Properties of the endpoints by id and of the configuration check\<close>

lemma find_id_None: "find (\<lambda>d. doc_id d = i) ds = None \<longleftrightarrow> i \<notin> doc_id ` set ds"
  by (induction ds) auto

lemma find_id_Some: "find (\<lambda>d. doc_id d = i) ds = Some d \<Longrightarrow> doc_id d = i \<and> d \<in> set ds"
  by (induction ds) (auto split: if_splits)

lemma remove_first_distinct:
  "distinct (map doc_id ds) \<Longrightarrow> remove_first i ds = filter (\<lambda>d. doc_id d \<noteq> i) ds"
proof (induction ds)
  case Nil
  then show ?case by simp
next
  case (Cons d ds)
  show ?case
  proof (cases "doc_id d = i")
    case True
    with Cons.prems have "i \<notin> doc_id ` set ds" by auto
    then have "filter (\<lambda>d. doc_id d \<noteq> i) ds = ds" by (auto simp: filter_id_conv)
    with True show ?thesis by simp
  next
    case False
    with Cons show ?thesis by simp
  qed
qed

lemma remove_first_length:
  "i \<in> doc_id ` set ds \<Longrightarrow> Suc (length (remove_first i ds)) = length ds"
  by (induction ds) auto

text \<open>
  C6. For a well-formed id, in a store whose ids are unique: when a document has the
  id, DELETE answers 200 with \<^verbatim>\<open>{deleted: true, id}\<close>, the collection afterwards is the
  old one without that document, one shorter, every other document in place and
  unchanged, and a GET of the same id then answers 404; when no document has the id,
  DELETE answers 404 and changes nothing.
\<close>

theorem delete_removes_one:
  assumes "castObjectId s = Some i" and "distinct (map doc_id (docs w))"
  shows "(i \<in> doc_id ` set (docs w) \<longrightarrow>
           (\<exists>w'. delete_by_id s w = (Inr (Reply 200 (Deleted i)), w')
              \<and> docs w' = filter (\<lambda>d. doc_id d \<noteq> i) (docs w)
              \<and> Suc (length (docs w')) = length (docs w)
              \<and> fresh w' = fresh w \<and> clock w' = clock w \<and> calls w' = calls w
              \<and> get_by_id s w' = (Inl (HttpError 404 ''Weather record not found''), w')
              \<and> status (fst (get_by_id s w')) = 404))
       \<and> (i \<notin> doc_id ` set (docs w) \<longrightarrow>
           delete_by_id s w = (Inl (HttpError 404 ''Weather record not found''), w)
           \<and> status (fst (delete_by_id s w)) = 404)"
proof (rule conjI; rule impI)
  assume mem: "i \<in> doc_id ` set (docs w)"
  then obtain d where d: "find (\<lambda>d. doc_id d = i) (docs w) = Some d"
    using find_id_None [of i "docs w"] by (cases "find (\<lambda>d. doc_id d = i) (docs w)") auto
  then have di: "doc_id d = i" using find_id_Some by blast
  let ?w = "w\<lparr>docs := remove_first i (docs w)\<rparr>"
  have del: "delete_by_id s w = (Inr (Reply 200 (Deleted i)), ?w)"
    by (simp add: delete_by_id_def Weather_findByIdAndDelete_def assms(1) d di)
  have flt: "docs ?w = filter (\<lambda>d. doc_id d \<noteq> i) (docs w)"
    using remove_first_distinct [OF assms(2)] by simp
  have len: "Suc (length (docs ?w)) = length (docs w)"
    using remove_first_length [OF mem] by simp
  have gone: "find (\<lambda>d. doc_id d = i) (docs ?w) = None"
    unfolding flt find_id_None by auto
  have get: "get_by_id s ?w = (Inl (HttpError 404 ''Weather record not found''), ?w)"
    using gone by (simp add: get_by_id_def Weather_findById_def assms(1))
  have st: "status (fst (get_by_id s ?w)) = 404"
    unfolding get by (simp add: valid_status_def)
  show "\<exists>w'. delete_by_id s w = (Inr (Reply 200 (Deleted i)), w')
      \<and> docs w' = filter (\<lambda>d. doc_id d \<noteq> i) (docs w)
      \<and> Suc (length (docs w')) = length (docs w)
      \<and> fresh w' = fresh w \<and> clock w' = clock w \<and> calls w' = calls w
      \<and> get_by_id s w' = (Inl (HttpError 404 ''Weather record not found''), w')
      \<and> status (fst (get_by_id s w')) = 404"
    apply (rule exI [of _ ?w])
    using del flt len get st by simp
next
  assume "i \<notin> doc_id ` set (docs w)"
  then have "find (\<lambda>d. doc_id d = i) (docs w) = None" by (simp add: find_id_None)
  then show "delete_by_id s w = (Inl (HttpError 404 ''Weather record not found''), w)
      \<and> status (fst (delete_by_id s w)) = 404"
    by (simp add: delete_by_id_def Weather_findByIdAndDelete_def assms(1) valid_status_def)
qed

theorem delete_removes_one_witness:
  "castObjectId ''000000000000000000000001'' = Some 1
   \<and> distinct (map doc_id (docs three_docs))
   \<and> 1 \<in> doc_id ` set (docs three_docs)
   \<and> (\<exists>w'. delete_by_id ''000000000000000000000001'' three_docs = (Inr (Reply 200 (Deleted 1)), w')
          \<and> docs w' = [fake_doc 0 ''City1'' 10, fake_doc 2 ''City3'' 20]
          \<and> status (fst (get_by_id ''000000000000000000000001'' w')) = 404)
   \<and> castObjectId ''00000000000000000000000a'' = Some 10
   \<and> 10 \<notin> doc_id ` set (docs three_docs)
   \<and> status (fst (delete_by_id ''00000000000000000000000a'' three_docs)) = 404"
proof -
  have c1: "castObjectId ''000000000000000000000001'' = Some 1"
    by (simp add: castObjectId_def is_hex_def is_digit_def hex_val_def)
  have c2: "castObjectId ''00000000000000000000000a'' = Some 10"
    by (simp add: castObjectId_def is_hex_def is_digit_def hex_val_def)
  have d: "distinct (map doc_id (docs three_docs))"
    by (simp add: three_docs_def fake_doc_def)
  have m1: "1 \<in> doc_id ` set (docs three_docs)"
    by (simp add: three_docs_def fake_doc_def)
  have m2: "10 \<notin> doc_id ` set (docs three_docs)"
    by (simp add: three_docs_def fake_doc_def)
  have f: "filter (\<lambda>d. doc_id d \<noteq> 1) (docs three_docs)
             = [fake_doc 0 ''City1'' 10, fake_doc 2 ''City3'' 20]"
    by (simp add: three_docs_def fake_doc_def)
  show ?thesis
    using c1 c2 d m1 m2 delete_removes_one [OF c1 d] delete_removes_one [OF c2 d]
    unfolding f by blast
qed

text \<open>
  C7. For a malformed id, GET and DELETE by id both fail with the cast error of the
  store, which the default handler answers with 500: a 5xx, never a 2xx, handled like
  every error of the handler, and not the 404 of a document that is not found. The
  state is unchanged.
\<close>

theorem malformed_id_is_an_error:
  assumes "castObjectId s = None"
  shows "get_by_id s w = (Inl (CastError s), w)
       \<and> delete_by_id s w = (Inl (CastError s), w)
       \<and> status (fst (get_by_id s w)) = 500
       \<and> status (fst (delete_by_id s w)) = 500
       \<and> valid_status (status (fst (get_by_id s w)))
       \<and> valid_status (status (fst (delete_by_id s w)))
       \<and> CastError s \<noteq> HttpError 404 ''Weather record not found''"
  using assms
  by (simp add: get_by_id_def delete_by_id_def Weather_findById_def Weather_findByIdAndDelete_def
      valid_status_def)

theorem malformed_id_is_an_error_witness:
  "castObjectId ''not-a-valid-id'' = None
   \<and> status (fst (get_by_id ''not-a-valid-id'' three_docs)) = 500
   \<and> status (fst (delete_by_id ''not-a-valid-id'' three_docs)) = 500
   \<and> snd (delete_by_id ''not-a-valid-id'' three_docs) = three_docs"
proof -
  have c: "castObjectId ''not-a-valid-id'' = None"
    by (simp add: castObjectId_def)
  show ?thesis
    using c malformed_id_is_an_error [OF c, of three_docs] by simp
qed

text \<open>
  C8. When the provider's API key is unset or empty, a POST that is not manual and a
  POST to \<^verbatim>\<open>/fetch\<close> fail with status 500 and leave the state as it was: no request is
  sent to the provider and nothing is stored.
\<close>

theorem missing_key_is_500:
  assumes "OPENWEATHER_API_KEY e = None \<or> OPENWEATHER_API_KEY e = Some []"
  shows "(\<not> truthy (member (JObj b) ''manual'') \<longrightarrow>
            post_weather prov e b w = (Inl (HttpError 500 ''Missing OPENWEATHER_API_KEY''), w)
            \<and> status (fst (post_weather prov e b w)) = 500)
       \<and> post_fetch prov e q_city w = (Inl (HttpError 500 ''Missing OPENWEATHER_API_KEY''), w)
       \<and> status (fst (post_fetch prov e q_city w)) = 500"
  using assms
  by (auto simp: post_weather_def post_fetch_def api_key_def valid_status_def Let_def)

theorem missing_key_is_500_witness:
  "OPENWEATHER_API_KEY \<lparr>OPENWEATHER_API_KEY = None, DEFAULT_CITY = Some ''Philadelphia''\<rparr> = None
   \<and> \<not> truthy (member (JObj [(''city'', JStr ''London'')]) ''manual'')
   \<and> post_weather london_provider \<lparr>OPENWEATHER_API_KEY = None, DEFAULT_CITY = Some ''Philadelphia''\<rparr>
        [(''city'', JStr ''London'')] three_docs
       = (Inl (HttpError 500 ''Missing OPENWEATHER_API_KEY''), three_docs)
   \<and> post_fetch london_provider \<lparr>OPENWEATHER_API_KEY = None, DEFAULT_CITY = Some ''Philadelphia''\<rparr>
        (Some ''London'') three_docs
       = (Inl (HttpError 500 ''Missing OPENWEATHER_API_KEY''), three_docs)"
proof -
  have k: "OPENWEATHER_API_KEY \<lparr>OPENWEATHER_API_KEY = None, DEFAULT_CITY = Some ''Philadelphia''\<rparr> = None
      \<or> OPENWEATHER_API_KEY \<lparr>OPENWEATHER_API_KEY = None, DEFAULT_CITY = Some ''Philadelphia''\<rparr> = Some []"
    by simp
  have m: "\<not> truthy (member (JObj [(''city'', JStr ''London'')]) ''manual'')"
    by simp
  show ?thesis
    using m missing_key_is_500 [OF k, of "[(''city'', JStr ''London'')]" london_provider three_docs
        "Some ''London''"]
    by simp
qed

section \<open>Properties of the creating and replacing endpoints\<close>

lemma member_rest:
  "k \<noteq> ''manual'' \<Longrightarrow>
     member (JObj (filter (\<lambda>(x, v). x \<noteq> ''manual'') kvs)) k = member (JObj kvs) k"
  by (induction kvs) auto

lemma parse_cong:
  assumes "is_object a" "is_object b" "same_canonical a b"
  shows "weatherSchema_parse a = weatherSchema_parse b"
  using assms
  by (simp add: weatherSchema_parse_def schema_keys_def same_canonical_def coords_schema_def)

lemma parse_rest:
  "weatherSchema_parse (JObj (filter (\<lambda>(x, v). x \<noteq> ''manual'') kvs)) = weatherSchema_parse (JObj kvs)"
  by (rule parse_cong) (simp_all add: schema_keys_def same_canonical_def member_rest del: member.simps)

lemma weather_json_new_doc [simp]: "weather_json (new_doc r i t) = weather_json r"
  by (simp add: weather_json_def new_doc_def)

lemma weather_json_set_fields [simp]: "weather_json (set_fields r t d) = weather_json r"
  by (simp add: weather_json_def new_doc_def set_fields_def)

lemma record_parsed:
  assumes "is_weather_record p"
  shows "\<exists>r. weatherSchema_parse p = Inr r \<and> same_fields (weather_json r) p
            \<and> failed_required r = []"
proof -
  from assms have "satisfies_schema p" by (simp add: is_weather_record_def)
  then obtain r where r: "weatherSchema_parse p = Inr r"
    using parse_Inr_iff [of p] satisfies_iff_no_offending [of p] by auto
  then have sf: "same_fields (weather_json r) p" by (rule parse_same_fields)
  have obj: "\<not> nullish p" using parse_Inr_fields(1) [OF r(1)] by (rule is_object_not_nullish)
  have "member p ''city'' = JStr (city r)" "2 \<le> length (country r)"
    using parse_Inr_fields [OF r(1)] by simp_all
  with assms obj have "city r \<noteq> []" "country r \<noteq> []"
    by (auto simp: is_weather_record_def)
  then have "failed_required r = []" by (simp add: failed_required_def)
  with r sf show ?thesis by blast
qed

text \<open>
  Were the body to hold a \<^verbatim>\<open>Date\<close> in \<^verbatim>\<open>fetchedAt\<close>, the manual branch would work as
  documented: for a payload P that satisfies the \<^verbatim>\<open>WeatherRecord\<close> of the data model, the
  handler appends one document and answers 201 with it, its schema fields reading as
  P's do. The date check is all that stands between a decoded body and this.
\<close>

lemma manual_post_creates_given_date:
  assumes "is_weather_record (JObj P)"
  shows "\<exists>d. post_weather prov e ((''manual'', JBool True) # P) w
               = (Inr (Reply 201 (Doc d)), w\<lparr>fresh := Suc (fresh w), docs := docs w @ [d]\<rparr>)
            \<and> same_fields (weather_json d) (JObj P)
            \<and> doc_id d = fresh w \<and> createdAt d = clock w \<and> updatedAt d = clock w"
proof -
  from record_parsed [OF assms] obtain r where
    r: "weatherSchema_parse (JObj P) = Inr r" "same_fields (weather_json r) (JObj P)"
       "failed_required r = []" by blast
  let ?d = "new_doc r (fresh w) (clock w)"
  have "post_weather prov e ((''manual'', JBool True) # P) w
          = (Inr (Reply 201 (Doc ?d)), w\<lparr>fresh := Suc (fresh w), docs := docs w @ [?d]\<rparr>)"
    by (simp add: post_weather_def parse_and_create_def parse_rest r Weather_create_def Let_def)
  moreover have "same_fields (weather_json ?d) (JObj P)" using r(2) by simp
  moreover have "doc_id ?d = fresh w" "createdAt ?d = clock w" "updatedAt ?d = clock w"
    by (simp_all add: new_doc_def)
  ultimately show ?thesis by blast
qed

lemma first_with_id:
  "i \<in> doc_id ` set ds \<Longrightarrow>
     \<exists>xs d ys. ds = xs @ d # ys \<and> doc_id d = i \<and> i \<notin> doc_id ` set xs"
proof (induction ds)
  case Nil
  then show ?case by simp
next
  case (Cons a ds)
  show ?case
  proof (cases "doc_id a = i")
    case True
    then have "a # ds = [] @ a # ds \<and> doc_id a = i \<and> i \<notin> doc_id ` set []" by simp
    then show ?thesis by blast
  next
    case False
    with Cons obtain xs d ys where "ds = xs @ d # ys" "doc_id d = i" "i \<notin> doc_id ` set xs"
      by auto
    with False have "a # ds = (a # xs) @ d # ys \<and> doc_id d = i \<and> i \<notin> doc_id ` set (a # xs)"
      by simp
    then show ?thesis by blast
  qed
qed

lemma find_first: "i \<notin> doc_id ` set xs \<Longrightarrow> doc_id d = i \<Longrightarrow>
    find (\<lambda>d. doc_id d = i) (xs @ d # ys) = Some d"
  by (induction xs) auto

lemma update_first_at: "i \<notin> doc_id ` set xs \<Longrightarrow> doc_id d = i \<Longrightarrow>
    update_first i f (xs @ d # ys) = xs @ f d # ys"
  by (induction xs) auto

lemma set_fields_keeps [simp]:
  "doc_id (set_fields r t d) = doc_id d" "createdAt (set_fields r t d) = createdAt d"
  "updatedAt (set_fields r t d) = t" "city (set_fields r t d) = city r"
  by (simp_all add: set_fields_def new_doc_def)

text \<open>
  Likewise for PUT: were the body to hold a \<^verbatim>\<open>Date\<close>, a well-formed id of a stored
  document would give 200 with the updated document in the old one's place, and an id
  of no document 404.
\<close>

lemma put_replaces_given_date:
  assumes "castObjectId s = Some i" and "is_weather_record p"
  shows "(i \<in> doc_id ` set (docs w) \<longrightarrow>
           (\<exists>d w' xs d0 ys. put_by_id s p w = (Inr (Reply 200 (Doc d)), w')
              \<and> same_fields (weather_json d) p
              \<and> doc_id d = i \<and> createdAt d = createdAt d0 \<and> updatedAt d = clock w
              \<and> docs w = xs @ d0 # ys \<and> doc_id d0 = i \<and> i \<notin> doc_id ` set xs
              \<and> docs w' = xs @ d # ys))
       \<and> (i \<notin> doc_id ` set (docs w) \<longrightarrow>
           put_by_id s p w = (Inl (HttpError 404 ''Weather record not found''), w)
           \<and> status (fst (put_by_id s p w)) = 404)"
proof (rule conjI; rule impI)
  from record_parsed [OF assms(2)] obtain r where
    r: "weatherSchema_parse p = Inr r" "same_fields (weather_json r) p" "failed_required r = []"
    by blast
  {
    assume "i \<in> doc_id ` set (docs w)"
    then obtain xs d0 ys where
      sp: "docs w = xs @ d0 # ys" "doc_id d0 = i" "i \<notin> doc_id ` set xs"
      using first_with_id by blast
    let ?d = "set_fields r (clock w) d0"
    let ?w = "w\<lparr>docs := xs @ ?d # ys\<rparr>"
    have f: "find (\<lambda>d. doc_id d = i) (docs w) = Some d0"
      unfolding sp(1) using sp(2,3) by (intro find_first)
    have u: "update_first i (set_fields r (clock w)) (docs w) = xs @ ?d # ys"
      unfolding sp(1) using sp(2,3) by (intro update_first_at)
    have "put_by_id s p w = (Inr (Reply 200 (Doc ?d)), ?w)"
      by (simp add: put_by_id_def Weather_findByIdAndUpdate_def r assms(1) f u)
    moreover have "same_fields (weather_json ?d) p" using r(2) by simp
    moreover have "doc_id ?d = i" "createdAt ?d = createdAt d0" "updatedAt ?d = clock w"
      using sp(2) by simp_all
    moreover have "docs ?w = xs @ ?d # ys" by simp
    ultimately show "\<exists>d w' xs d0 ys. put_by_id s p w = (Inr (Reply 200 (Doc d)), w')
              \<and> same_fields (weather_json d) p
              \<and> doc_id d = i \<and> createdAt d = createdAt d0 \<and> updatedAt d = clock w
              \<and> docs w = xs @ d0 # ys \<and> doc_id d0 = i \<and> i \<notin> doc_id ` set xs
              \<and> docs w' = xs @ d # ys"
      using sp by blast
  }
  {
    assume "i \<notin> doc_id ` set (docs w)"
    then have "find (\<lambda>d. doc_id d = i) (docs w) = None" by (simp add: find_id_None)
    then show "put_by_id s p w = (Inl (HttpError 404 ''Weather record not found''), w)
           \<and> status (fst (put_by_id s p w)) = 404"
      by (simp add: put_by_id_def Weather_findByIdAndUpdate_def r assms(1) valid_status_def)
  }
qed

section \<open>Properties of the stored cities and of the stripped keys\<close>

lemma create_cities:
  "cities_nonempty w \<Longrightarrow> cities_nonempty (snd (Weather_create r w))"
  by (auto simp: cities_nonempty_def Weather_create_def Let_def failed_required_def new_doc_def
      split: if_splits)

lemma parse_and_create_cities:
  assumes "cities_nonempty w"
  shows "cities_nonempty (snd (parse_and_create c w))"
proof (cases "weatherSchema_parse c")
  case (Inl a)
  with assms show ?thesis by (simp add: parse_and_create_def)
next
  case (Inr r)
  obtain x w1 where cr: "Weather_create r w = (x, w1)" by force
  then have "cities_nonempty w1" using create_cities [OF assms, of r] by simp
  then show ?thesis by (cases x) (simp_all add: parse_and_create_def Inr cr)
qed

lemma fetchWeather_docs: "docs (snd (fetchWeather prov c k w)) = docs w"
  by (simp add: fetchWeather_def Let_def split: sum.splits)

lemma fetch_then_create_cities:
  assumes "cities_nonempty w"
  shows "cities_nonempty (snd (case fetchWeather prov c k w of
            (Inl err, w1) \<Rightarrow> (Inl err, w1)
          | (Inr candidate, w1) \<Rightarrow> parse_and_create candidate w1))"
proof -
  obtain x w1 where f: "fetchWeather prov c k w = (x, w1)" by force
  then have "docs w1 = docs w" using fetchWeather_docs [of prov c k w] by simp
  with assms have "cities_nonempty w1" by (simp add: cities_nonempty_def)
  then show ?thesis by (cases x) (simp_all add: f parse_and_create_cities)
qed

lemma post_weather_cities:
  assumes "cities_nonempty w"
  shows "cities_nonempty (snd (post_weather prov e b w))"
proof (cases "truthy (member (JObj b) ''manual'')")
  case True
  then show ?thesis
    using parse_and_create_cities [OF assms] by (simp add: post_weather_def Let_def)
next
  case False
  show ?thesis
  proof (cases "api_key e")
    case (Inl a)
    with False assms show ?thesis by (simp add: post_weather_def Let_def)
  next
    case (Inr k)
    with False show ?thesis
      using fetch_then_create_cities [OF assms] by (simp add: post_weather_def Let_def)
  qed
qed

lemma post_fetch_cities:
  assumes "cities_nonempty w"
  shows "cities_nonempty (snd (post_fetch prov e q w))"
proof (cases "api_key e")
  case (Inl a)
  with assms show ?thesis by (simp add: post_fetch_def)
next
  case (Inr k)
  then show ?thesis
    using fetch_then_create_cities [OF assms] by (simp add: post_fetch_def)
qed

lemma update_first_set:
  "x \<in> set (update_first i f ds) \<Longrightarrow> x \<in> set ds \<or> (\<exists>d \<in> set ds. x = f d)"
  by (induction ds) (auto split: if_splits)

lemma remove_first_set: "x \<in> set (remove_first i ds) \<Longrightarrow> x \<in> set ds"
  by (induction ds) (auto split: if_splits)

lemma put_cities:
  "cities_nonempty w \<Longrightarrow> cities_nonempty (snd (put_by_id s p w))"
  by (auto simp: put_by_id_def Weather_findByIdAndUpdate_def cities_nonempty_def
      failed_required_def
      split: sum.splits prod.splits option.splits if_splits dest!: update_first_set)

lemma delete_cities:
  "cities_nonempty w \<Longrightarrow> cities_nonempty (snd (delete_by_id s w))"
  by (auto simp: delete_by_id_def Weather_findByIdAndDelete_def cities_nonempty_def
      split: sum.splits prod.splits option.splits dest: remove_first_set)

lemma get_by_id_state:
  "snd (get_by_id s w) = w"
  by (auto simp: get_by_id_def split: sum.splits option.splits)

text \<open>
  C9, as the code has it. A record that passes the validation layer has the payload's
  city, a string that may be empty. The store's required check refuses an empty city on
  create and on update, so every handler keeps all stored cities non-empty.
\<close>

theorem persisted_city_nonempty:
  "(weatherSchema_parse p = Inr r \<longrightarrow> member p ''city'' = JStr (city r))
   \<and> (cities_nonempty w \<longrightarrow>
        cities_nonempty (snd (post_weather prov e b w))
      \<and> cities_nonempty (snd (post_fetch prov e q_city w))
      \<and> cities_nonempty (snd (put_by_id s p w))
      \<and> cities_nonempty (snd (delete_by_id s w))
      \<and> cities_nonempty (snd (get_by_id s w))
      \<and> cities_nonempty (snd (get_list q_city q_limit w)))"
  using parse_Inr_fields(2) [of p r] post_weather_cities [of w prov e b]
    post_fetch_cities [of w prov e q_city] put_cities [of w s p] delete_cities [of w s]
  by (simp add: get_by_id_state get_list_eq)

theorem persisted_city_nonempty_witness:
  "weatherSchema_parse (JObj ((''city'', JStr []) # makeFakeWeather))
     = Inr (mk_weather ([], ''US'', \<lparr>lon = Fin (- 751 / 10), lat = Fin (399 / 10)\<rparr>, Fin 21, Fin 20,
              Fin 55, Fin 1013, Fin 4, ''Clouds'', ''overcast clouds'', 1735689600000))
   \<and> cities_nonempty three_docs
   \<and> cities_nonempty (snd (post_weather london_provider \<lparr>OPENWEATHER_API_KEY = None, DEFAULT_CITY = None\<rparr>
        ((''manual'', JBool True) # (''city'', JStr []) # makeFakeWeather) three_docs))
   \<and> status (fst (post_weather london_provider \<lparr>OPENWEATHER_API_KEY = None, DEFAULT_CITY = None\<rparr>
        ((''manual'', JBool True) # (''city'', JStr []) # makeFakeWeather) three_docs)) = 500"
proof -
  have p: "weatherSchema_parse (JObj ((''city'', JStr []) # makeFakeWeather))
     = Inr (mk_weather ([], ''US'', \<lparr>lon = Fin (- 751 / 10), lat = Fin (399 / 10)\<rparr>, Fin 21, Fin 20,
              Fin 55, Fin 1013, Fin 4, ''Clouds'', ''overcast clouds'', 1735689600000))"
    by (simp add: weatherSchema_parse_def makeFakeWeather_def coords_schema_def z_string_min_def
        z_int_def)
  have c: "cities_nonempty three_docs"
    by (simp add: cities_nonempty_def three_docs_def fake_doc_def)
  have s: "status (fst (post_weather london_provider \<lparr>OPENWEATHER_API_KEY = None, DEFAULT_CITY = None\<rparr>
        ((''manual'', JBool True) # (''city'', JStr []) # makeFakeWeather) three_docs)) = 500"
    by (simp add: post_weather_def parse_and_create_def weatherSchema_parse_def makeFakeWeather_def
        coords_schema_def z_string_min_def z_int_def Weather_create_def Let_def
        failed_required_def mk_weather_def)
  show ?thesis
    using p c s persisted_city_nonempty [of "JObj ((''city'', JStr []) # makeFakeWeather)" _
        three_docs london_provider "\<lparr>OPENWEATHER_API_KEY = None, DEFAULT_CITY = None\<rparr>"
        "(''manual'', JBool True) # (''city'', JStr []) # makeFakeWeather"]
    by blast
qed

text \<open>
  C9 as stated fails at the validation layer: the schema's \<^verbatim>\<open>z.string()\<close> takes the empty
  city, so a payload with the city \<^verbatim>\<open>""\<close> passes validation with an empty city.
\<close>

theorem validated_city_empty_counterexample:
  "map_sum id city (weatherSchema_parse (JObj ((''city'', JStr []) # makeFakeWeather))) = Inr []"
  by (simp add: weatherSchema_parse_def makeFakeWeather_def coords_schema_def z_string_min_def
      z_int_def mk_weather_def)

lemma same_canonical_rest:
  "same_canonical (JObj (filter (\<lambda>(x, v). x \<noteq> ''manual'') kvs)) (JObj kvs)"
  by (simp add: schema_keys_def same_canonical_def member_rest del: member.simps)

lemma same_canonical_sym: "same_canonical a b \<Longrightarrow> same_canonical b a"
  by (simp add: same_canonical_def)

lemma same_canonical_trans: "same_canonical a b \<Longrightarrow> same_canonical b c \<Longrightarrow> same_canonical a c"
  by (simp add: same_canonical_def)

text \<open>
  In the manual branch the outcome depends on the canonical part of the body alone.
\<close>

lemma manual_outcome_canonical:
  assumes "truthy (member (JObj b) ''manual'')" and "truthy (member (JObj b') ''manual'')"
    and "same_canonical (JObj b) (JObj b')"
  shows "post_weather prov e b w = post_weather prov' e' b' w
       \<and> weatherSchema_parse (JObj b) = weatherSchema_parse (JObj b')"
proof -
  let ?r = "\<lambda>kvs. JObj (filter (\<lambda>(x, v). x \<noteq> ''manual'') kvs)"
  have "same_canonical (?r b) (?r b')"
    using same_canonical_rest [of b] same_canonical_rest [of b'] assms(3)
    by (blast intro: same_canonical_trans same_canonical_sym)
  then have "weatherSchema_parse (?r b) = weatherSchema_parse (?r b')"
    by (intro parse_cong) simp_all
  then have "parse_and_create (?r b) w = parse_and_create (?r b') w"
    by (simp add: parse_and_create_def)
  then have "post_weather prov e b w = post_weather prov' e' b' w"
    using assms(1,2) by (simp add: post_weather_def Let_def del: member.simps)
  moreover have "weatherSchema_parse (JObj b) = weatherSchema_parse (JObj b')"
    using assms(3) by (intro parse_cong) simp_all
  ultimately show ?thesis by blast
qed

section \<open>A decoded body never passes the date check\<close>

lemma decoded_not_date: "decoded v \<Longrightarrow> \<not> is_date v"
  by (cases v) auto

lemma decoded_entry: "decoded (JObj kvs) \<Longrightarrow> map_of kvs k = Some v \<Longrightarrow> decoded v"
  by (induction kvs) (auto split: if_splits)

lemma decoded_member_not_date:
  assumes "decoded (JObj kvs)"
  shows "\<not> is_date (member (JObj kvs) k)"
proof (cases "map_of kvs k")
  case None
  then show ?thesis by simp
next
  case (Some v)
  then have "decoded v" using assms by (rule decoded_entry [rotated])
  then show ?thesis using Some by (simp add: decoded_not_date)
qed

lemma z_date_not_date:
  "\<not> is_date v \<Longrightarrow> z_date p v = Inl [\<lparr>path = p, code = Invalid_type\<rparr>]"
  by (cases v) (auto simp: invalid_def)

lemma both_Inl_right: "both x (Inl e) = Inl (issues x @ e)"
  by (cases x) auto

lemma parse_without_date:
  assumes "is_object p" and "\<not> is_date (member p ''fetchedAt'')"
  shows "\<exists>is. weatherSchema_parse p = Inl is
            \<and> \<lparr>path = [''fetchedAt''], code = Invalid_type\<rparr> \<in> set is"
  using assms by (simp add: weatherSchema_parse_def z_date_not_date both_Inl_right)

lemma parse_decoded:
  assumes "decoded p"
  shows "\<exists>is. weatherSchema_parse p = Inl is \<and> is \<noteq> []
            \<and> (is_object p \<longrightarrow> \<lparr>path = [''fetchedAt''], code = Invalid_type\<rparr> \<in> set is)"
proof (cases "is_object p")
  case True
  then obtain kvs where p: "p = JObj kvs" by (cases p) auto
  with assms have "\<not> is_date (member p ''fetchedAt'')"
    using decoded_member_not_date [of kvs "''fetchedAt''"] by simp
  from parse_without_date [OF True this] show ?thesis by auto
next
  case False
  then show ?thesis by (simp add: weatherSchema_parse_def invalid_def)
qed

text \<open>
  C1, on the code. A manual POST whose body a body parser decoded never creates
  anything: whatever the payload, \<^verbatim>\<open>fetchedAt\<close> is no \<^verbatim>\<open>Date\<close>, \<^verbatim>\<open>z.date()\<close> refuses it, the
  handler passes the \<^verbatim>\<open>ZodError\<close> to \<^verbatim>\<open>next\<close>, the answer is 500 and the state is
  unchanged.
\<close>

theorem manual_post_decoded_body_fails:
  assumes "decoded (JObj b)" and "truthy (member (JObj b) ''manual'')"
  shows "\<exists>is. post_weather prov e b w = (Inl (ZodError is), w)
            \<and> \<lparr>path = [''fetchedAt''], code = Invalid_type\<rparr> \<in> set is
            \<and> status (fst (post_weather prov e b w)) = 500"
proof -
  let ?rest = "JObj (filter (\<lambda>(k, v). k \<noteq> ''manual'') b)"
  have "member ?rest ''fetchedAt'' = member (JObj b) ''fetchedAt''"
    by (rule member_rest) simp
  then have "\<not> is_date (member ?rest ''fetchedAt'')"
    using decoded_member_not_date [OF assms(1), of "''fetchedAt''"] by simp
  then obtain "is" where i: "weatherSchema_parse ?rest = Inl is"
      "\<lparr>path = [''fetchedAt''], code = Invalid_type\<rparr> \<in> set is"
    using parse_without_date [of ?rest] by auto
  have "post_weather prov e b w = (Inl (ZodError is), w)"
    using assms(2) i(1) by (simp add: post_weather_def parse_and_create_def Let_def del: member.simps)
  with i(2) show ?thesis by auto
qed

theorem manual_post_decoded_body_fails_witness:
  "decoded (JObj ((''manual'', JBool True) # makeFakeWeather_json))
   \<and> truthy (member (JObj ((''manual'', JBool True) # makeFakeWeather_json)) ''manual'')
   \<and> status (fst (post_weather london_provider \<lparr>OPENWEATHER_API_KEY = None, DEFAULT_CITY = None\<rparr>
        ((''manual'', JBool True) # makeFakeWeather_json) three_docs)) = 500
   \<and> snd (post_weather london_provider \<lparr>OPENWEATHER_API_KEY = None, DEFAULT_CITY = None\<rparr>
        ((''manual'', JBool True) # makeFakeWeather_json) three_docs) = three_docs"
proof -
  have d: "decoded (JObj ((''manual'', JBool True) # makeFakeWeather_json))"
    by (simp add: makeFakeWeather_json_def)
  have t: "truthy (member (JObj ((''manual'', JBool True) # makeFakeWeather_json)) ''manual'')"
    by simp
  show ?thesis
    using d t manual_post_decoded_body_fails [OF d t, of london_provider
        "\<lparr>OPENWEATHER_API_KEY = None, DEFAULT_CITY = None\<rparr>" three_docs]
    by auto
qed

text \<open>
  C5, on the code. A PUT whose body a body parser decoded never reaches the store:
  validation fails first, on \<^verbatim>\<open>fetchedAt\<close> when the body is an object, so the answer is
  500 and the state is unchanged, whether a document has the id or not.
\<close>

theorem put_decoded_body_fails:
  assumes "decoded p"
  shows "\<exists>is. put_by_id s p w = (Inl (ZodError is), w) \<and> is \<noteq> []
            \<and> (is_object p \<longrightarrow> \<lparr>path = [''fetchedAt''], code = Invalid_type\<rparr> \<in> set is)
            \<and> status (fst (put_by_id s p w)) = 500"
proof -
  from parse_decoded [OF assms] obtain "is" where i: "weatherSchema_parse p = Inl is" "is \<noteq> []"
    "is_object p \<longrightarrow> \<lparr>path = [''fetchedAt''], code = Invalid_type\<rparr> \<in> set is" by blast
  have "put_by_id s p w = (Inl (ZodError is), w)" by (simp add: put_by_id_def i(1))
  with i show ?thesis by auto
qed

theorem put_decoded_body_fails_witness:
  "decoded (JObj makeFakeWeather_json)
   \<and> is_object (JObj makeFakeWeather_json)
   \<and> castObjectId ''000000000000000000000001'' = Some 1
   \<and> 1 \<in> doc_id ` set (docs three_docs)
   \<and> status (fst (put_by_id ''000000000000000000000001'' (JObj makeFakeWeather_json) three_docs))
        = 500
   \<and> snd (put_by_id ''000000000000000000000001'' (JObj makeFakeWeather_json) three_docs)
        = three_docs"
proof -
  have d: "decoded (JObj makeFakeWeather_json)"
    by (simp add: makeFakeWeather_json_def)
  have c: "castObjectId ''000000000000000000000001'' = Some 1"
    by (simp add: castObjectId_def is_hex_def is_digit_def hex_val_def)
  have m: "1 \<in> doc_id ` set (docs three_docs)"
    by (simp add: three_docs_def fake_doc_def)
  show ?thesis
    using d c m put_decoded_body_fails [OF d, of "''000000000000000000000001''" three_docs]
    by auto
qed


section \<open>The store keeps its ids unique\<close>

text \<open>
  The uniqueness of ids that the properties of DELETE rest on holds in the empty store
  and is kept by every handler.
\<close>

lemma create_unique: "unique_ids w \<Longrightarrow> unique_ids (snd (Weather_create r w))"
  by (auto simp: unique_ids_def Weather_create_def Let_def new_doc_def less_Suc_eq)

lemma parse_and_create_unique:
  assumes "unique_ids w"
  shows "unique_ids (snd (parse_and_create c w))"
proof (cases "weatherSchema_parse c")
  case (Inl a)
  with assms show ?thesis by (simp add: parse_and_create_def)
next
  case (Inr r)
  obtain x w1 where cr: "Weather_create r w = (x, w1)" by force
  then have "unique_ids w1" using create_unique [OF assms, of r] by simp
  then show ?thesis by (cases x) (simp_all add: parse_and_create_def Inr cr)
qed

lemma fetchWeather_fresh: "fresh (snd (fetchWeather prov c k w)) = fresh w"
  by (simp add: fetchWeather_def Let_def split: sum.splits)

lemma fetch_then_create_unique:
  assumes "unique_ids w"
  shows "unique_ids (snd (case fetchWeather prov c k w of
            (Inl err, w1) \<Rightarrow> (Inl err, w1)
          | (Inr candidate, w1) \<Rightarrow> parse_and_create candidate w1))"
proof -
  obtain x w1 where f: "fetchWeather prov c k w = (x, w1)" by force
  then have "docs w1 = docs w" "fresh w1 = fresh w"
    using fetchWeather_docs [of prov c k w] fetchWeather_fresh [of prov c k w] by simp_all
  with assms have "unique_ids w1" by (simp add: unique_ids_def)
  then show ?thesis by (cases x) (simp_all add: f parse_and_create_unique)
qed

lemma update_first_ids:
  "(\<And>d. doc_id (f d) = doc_id d) \<Longrightarrow> map doc_id (update_first i f ds) = map doc_id ds"
  by (induction ds) auto

lemma remove_first_ids_distinct:
  "distinct (map doc_id ds) \<Longrightarrow> distinct (map doc_id (remove_first i ds))"
  by (induction ds) (auto dest: remove_first_set)

lemma handlers_keep_unique_ids:
  assumes "unique_ids w"
  shows "unique_ids (snd (post_weather prov e b w))"
    and "unique_ids (snd (post_fetch prov e q_city w))"
    and "unique_ids (snd (put_by_id s p w))"
    and "unique_ids (snd (delete_by_id s w))"
    and "unique_ids (snd (get_by_id s w))"
    and "unique_ids (snd (get_list q_city q_limit w))"
proof -
  show "unique_ids (snd (post_weather prov e b w))"
  proof (cases "truthy (member (JObj b) ''manual'')")
    case True
    then show ?thesis
      using parse_and_create_unique [OF assms] by (simp add: post_weather_def Let_def)
  next
    case False
    then show ?thesis
      using fetch_then_create_unique [OF assms] assms
      by (cases "api_key e") (simp_all add: post_weather_def Let_def)
  qed
  show "unique_ids (snd (post_fetch prov e q_city w))"
    using fetch_then_create_unique [OF assms] assms
    by (cases "api_key e") (simp_all add: post_fetch_def)
  have ids: "\<And>r t. map doc_id (update_first i (set_fields r t) (docs w)) = map doc_id (docs w)" for i
    by (rule update_first_ids) simp
  have "\<And>r t i x. x \<in> set (update_first i (set_fields r t) (docs w)) \<Longrightarrow> doc_id x < fresh w"
  proof -
    fix r t i x assume "x \<in> set (update_first i (set_fields r t) (docs w))"
    then have "doc_id x \<in> set (map doc_id (update_first i (set_fields r t) (docs w)))" by simp
    then have "doc_id x \<in> doc_id ` set (docs w)" unfolding ids by simp
    with assms show "doc_id x < fresh w" by (auto simp: unique_ids_def)
  qed
  with assms ids show "unique_ids (snd (put_by_id s p w))"
    by (auto simp: put_by_id_def Weather_findByIdAndUpdate_def unique_ids_def
        split: sum.splits option.splits)
  show "unique_ids (snd (delete_by_id s w))"
    using assms
    by (auto simp: delete_by_id_def Weather_findByIdAndDelete_def unique_ids_def
        remove_first_ids_distinct split: option.splits dest: remove_first_set)
  show "unique_ids (snd (get_by_id s w))" using assms by (simp add: get_by_id_state)
  show "unique_ids (snd (get_list q_city q_limit w))" using assms by (simp add: get_list_eq)
qed

lemma empty_store_unique: "unique_ids \<lparr>docs = [], fresh = 0, clock = t, calls = []\<rparr>"
  by (simp add: unique_ids_def)

end
